theory Spec2Isabelle
  imports Complex_Main "HOL-Library.Multiset"
begin

section \<open>OpenIFS single column model over a grid of cells: the embedding\<close>

text \<open>
  The development follows the Python sources \<^verbatim>\<open>openifs_scm.py\<close> (the tile runner, class
  \<^verbatim>\<open>SCMTileRunner\<close>) and \<^verbatim>\<open>openifs_pp_main.py\<close> (the post-processor). Every Python
  function that a property below is about is a HOL function of the same name. Exceptions
  are values of the type \<open>exn\<close>, and a function that can raise returns \<open>exn + 'a\<close> with
  \<open>Inl\<close> for the exception. The file system, the log and the external model process are
  explicit: a function that touches them takes the state and returns the new one.
\<close>

subsection \<open>Exceptions\<close>

text \<open>
  The messages of \<^verbatim>\<open>SCMError\<close> are kept as a failure kind, one constructor for each
  message text of \<^verbatim>\<open>openifs_scm.py\<close>; the argument is what the message is formatted with.
\<close>

datatype scm_failure =
    NonZeroExit int
  | ExecutableNotFound string
  | LaunchFailed
  | CannotExecute string
  | MissingOrEmpty string
  | ArchivePermissionDenied string
  | ArchiveMayNotExist string

datatype pp_failure =
    ProcessesNotPositive
  | BadConfiguration
  | CannotOpenInput
  | CannotExtractCoordinates
  | CannotReadCellFiles "string list"

text \<open>
  \<open>TileRunError\<close> is the exception of the scmtiles library, \<open>SCMError\<close> its subclass
  declared in \<^verbatim>\<open>openifs_scm.py\<close>, \<open>Error\<close> the exception class of the post-processor.
  \<open>ConfigurationError\<close> is the library's too, \<open>ShutilError\<close> is \<^verbatim>\<open>shutil.Error\<close> (a subclass
  of \<^verbatim>\<open>OSError\<close>), and the others are Python's built-in exceptions.
\<close>

datatype exn =
    SCMError scm_failure
  | TileRunError string
  | Error pp_failure
  | NameError string
  | UnboundLocalError string
  | FileNotFoundError
  | PermissionError
  | OSError
  | RuntimeError
  | ValueError
  | IndexError
  | ConfigurationError
  | ShutilError

text \<open>The subclass tests that the \<^verbatim>\<open>except\<close> clauses of the sources make.\<close>

fun is_SCMError :: "exn \<Rightarrow> bool" where
  "is_SCMError (SCMError _) = True"
| "is_SCMError _ = False"

fun is_TileRunError :: "exn \<Rightarrow> bool" where
  "is_TileRunError (SCMError _) = True"
| "is_TileRunError (TileRunError _) = True"
| "is_TileRunError _ = False"

fun is_OSError :: "exn \<Rightarrow> bool" where
  "is_OSError FileNotFoundError = True"
| "is_OSError PermissionError = True"
| "is_OSError OSError = True"
| "is_OSError ShutilError = True"
| "is_OSError _ = False"

subsection \<open>Configuration, cells and formatted names\<close>

record datetime =
  year :: int
  month :: int
  day :: int
  hour :: int
  minute :: int
  second :: int
  microsecond :: int

record config =
  start_time :: datetime
  output_directory :: string
  template_directory :: string

record cell =
  x_global :: nat
  y_global :: nat

text \<open>Decimal digits of a natural number, and Python's \<^verbatim>\<open>'{:04d}'\<close>, \<^verbatim>\<open>%m\<close>, ... padding.\<close>

definition digit_char :: "nat \<Rightarrow> char" where
  "digit_char d = ''0123456789'' ! d"

fun digits :: "nat \<Rightarrow> string" where
  "digits n = (if n < 10 then [digit_char n] else digits (n div 10) @ [digit_char (n mod 10)])"

declare digits.simps [simp del]

definition zero_pad :: "nat \<Rightarrow> nat \<Rightarrow> string" where
  "zero_pad w n = replicate (w - length (digits n)) (CHR ''0'') @ digits n"

definition cell_id :: "cell \<Rightarrow> string" where
  "cell_id c = ''y'' @ zero_pad 4 (y_global c) @ ''x'' @ zero_pad 4 (x_global c)"

text \<open>\<^verbatim>\<open>strftime('%Y%m%d_%H%M%S')\<close>, for the years 1000 to 9999 that print as four digits.\<close>

definition date_id :: "datetime \<Rightarrow> string" where
  "date_id t =
     zero_pad 4 (nat (year t)) @ zero_pad 2 (nat (month t)) @ zero_pad 2 (nat (day t)) @ ''_'' @
     zero_pad 2 (nat (hour t)) @ zero_pad 2 (nat (minute t)) @ zero_pad 2 (nat (second t))"

text \<open>\<^verbatim>\<open>os.path.join\<close> of a directory and a relative name.\<close>

definition pjoin :: "string \<Rightarrow> string \<Rightarrow> string" where
  "pjoin d f = (if d = [] \<or> last d = CHR ''/'' then d @ f else d @ ''/'' @ f)"

text \<open>
  \<^verbatim>\<open>os.path.splitext\<close> of a file name without directory part: the extension starts at
  the last dot, unless only dots come before it.
\<close>

definition splitext :: "string \<Rightarrow> string \<times> string" where
  "splitext p =
     (let r = rev p;
          ext = rev (takeWhile (\<lambda>c. c \<noteq> CHR ''.'') r);
          rest = dropWhile (\<lambda>c. c \<noteq> CHR ''.'') r
      in if rest = [] \<or> list_all (\<lambda>c. c = CHR ''.'') (tl rest) then (p, [])
         else (rev (tl rest), CHR ''.'' # ext))"

subsection \<open>The time coordinate (\<^verbatim>\<open>SCMTileRunner._time_to_ifs\<close>)\<close>

text \<open>
  A time coordinate is the list of its values: \<^verbatim>\<open>datetime64[ns]\<close> values are 64-bit
  integers, nanoseconds since 1970-01-01T00:00:00. In \<^verbatim>\<open>np.round(time_int / 1.e9)\<close> the
  integers are first converted to binary64 floating point numbers, these are divided by
  \<open>10\<^sup>9\<close> in binary64 arithmetic, and the quotients are rounded to integral values. Each of
  the three steps rounds to the nearest value it can give, a tie to the even neighbour.

  \<open>np_round_div a d\<close> is the quotient of \<open>a\<close> by \<open>d > 0\<close> rounded to the nearest integer, a
  tie to the even neighbour.
\<close>

definition np_round_div :: "int \<Rightarrow> int \<Rightarrow> int" where
  "np_round_div a d =
     (let q = a div d; r = a mod d
      in if 2 * r < d then q
         else if d < 2 * r then q + 1
         else if even q then q else q + 1)"

text \<open>
  A binary64 number is a pair \<open>(m, e)\<close> that stands for \<open>m * 2\<^sup>e\<close>, with a significand \<open>m\<close>
  of at most 53 bits (or of 54 bits, all but the first zero, after a rounding that carries). The range of the
  exponent is left out: a 64-bit integer and its quotient by \<open>10\<^sup>9\<close> are zero or normal
  numbers. \<open>bit_length\<close> is Python's \<^verbatim>\<open>int.bit_length\<close>.
\<close>

type_synonym float64 = "int \<times> int"

fun bit_length :: "nat \<Rightarrow> nat" where
  "bit_length n = (if n = 0 then 0 else Suc (bit_length (n div 2)))"

declare bit_length.simps [simp del]

text \<open>The conversion of a 64-bit integer: the bits below the 53 leading ones are rounded off.\<close>

definition float64_of_int :: "int \<Rightarrow> float64" where
  "float64_of_int n =
     (let k = bit_length (nat \<bar>n\<bar>) - 53
      in (np_round_div n (2 ^ k), int k))"

text \<open>
  The division of a binary64 number by a positive integer \<open>d\<close> that is a binary64 number
  itself (\<open>10\<^sup>9\<close> is): \<open>lg\<close> is the exponent of the leading bit of the exact quotient
  \<open>\<bar>m\<bar> / d\<close>, and the quotient is rounded to 53 bits from that one on.
\<close>

definition float64_div :: "float64 \<Rightarrow> int \<Rightarrow> float64" where
  "float64_div x d =
     (case x of
        (m, e) \<Rightarrow>
          if m = 0 then (0, 0)
          else
            (let dl = int (bit_length (nat \<bar>m\<bar>)) - int (bit_length (nat d));
                 lg = (if d * 2 ^ nat dl \<le> \<bar>m\<bar> * 2 ^ nat (- dl) then dl else dl - 1);
                 s = lg - 52
             in (if 0 \<le> s then np_round_div m (d * 2 ^ nat s)
                 else np_round_div (m * 2 ^ nat (- s)) d,
                 s + e)))"

text \<open>\<^verbatim>\<open>np.round\<close> of a binary64 number, and the integer that \<^verbatim>\<open>astype\<close> reads from it.\<close>

definition np_round :: "float64 \<Rightarrow> int" where
  "np_round x =
     (case x of
        (m, e) \<Rightarrow> if 0 \<le> e then m * 2 ^ nat e else np_round_div m (2 ^ nat (- e)))"

definition round_seconds :: "int \<Rightarrow> int" where
  "round_seconds t_ns = np_round (float64_div (float64_of_int t_ns) 1000000000)"

record ifs_coords =
  date_coord :: "int list"
  second_coord :: "int list"
  time_coord :: "int list"

text \<open>\<^verbatim>\<open>int(reference_date.strftime('%Y%m%d'))\<close>\<close>

definition yyyymmdd :: "datetime \<Rightarrow> int" where
  "yyyymmdd t = year t * 10000 + month t * 100 + day t"

text \<open>\<^verbatim>\<open>(reference_time - reference_date).seconds\<close>, the reference date being midnight.\<close>

definition seconds_since_midnight :: "datetime \<Rightarrow> int" where
  "seconds_since_midnight t = hour t * 3600 + minute t * 60 + second t"

text \<open>\<^verbatim>\<open>time_rs - time_rs[0]\<close>: indexing an empty array raises \<^verbatim>\<open>IndexError\<close>.\<close>

definition since_first :: "int list \<Rightarrow> exn + int list" where
  "since_first time_rs =
     (case time_rs of
        [] \<Rightarrow> Inl IndexError
      | t0 # _ \<Rightarrow> Inr (map (\<lambda>t. t - t0) time_rs))"

definition time_to_ifs :: "config \<Rightarrow> int list \<Rightarrow> exn + ifs_coords" where
  "time_to_ifs cfg tile_time =
     (let number_times = length tile_time;
          reference_time = start_time cfg;
          date_values = replicate number_times (yyyymmdd reference_time);
          second_values = replicate number_times (seconds_since_midnight reference_time);
          time_rs = map round_seconds tile_time
      in case since_first time_rs of
           Inl e \<Rightarrow> Inl e
         | Inr time_values \<Rightarrow>
             Inr \<lparr>date_coord = date_values, second_coord = second_values,
                  time_coord = time_values\<rparr>)"

text \<open>
  The post-processor's rebase (\<^verbatim>\<open>post_process\<close>, the lines after the concatenation):
  \<^verbatim>\<open>base_time = np.datetime64(start_time.strftime('%FT%T') + '+0000')\<close> is the start time
  in whole seconds since 1970-01-01T00:00:00 (proleptic Gregorian calendar), and it is
  added to every value of the time coordinate.
\<close>

definition days_from_civil :: "int \<Rightarrow> int \<Rightarrow> int \<Rightarrow> int" where
  "days_from_civil y m d =
     (let y' = (if m \<le> 2 then y - 1 else y);
          era = y' div 400;
          yoe = y' - era * 400;
          doy = (153 * (if 2 < m then m - 3 else m + 9) + 2) div 5 + d - 1;
          doe = yoe * 365 + yoe div 4 - yoe div 100 + doy
      in era * 146097 + doe - 719468)"

definition base_time :: "config \<Rightarrow> int" where
  "base_time cfg =
     (let t = start_time cfg
      in days_from_civil (year t) (month t) (day t) * 86400 + seconds_since_midnight t)"

definition rebase_time :: "config \<Rightarrow> int list \<Rightarrow> int list" where
  "rebase_time cfg time_values = map (\<lambda>t. t + base_time cfg) time_values"

subsection \<open>Sequencing of calls that can raise\<close>

text \<open>A list of results, evaluated left to right: the first exception is the one raised.\<close>

fun sequence :: "(exn + 'a) list \<Rightarrow> exn + 'a list" where
  "sequence [] = Inr []"
| "sequence (Inl e # _) = Inl e"
| "sequence (Inr x # rs) = (case sequence rs of Inl e \<Rightarrow> Inl e | Inr xs \<Rightarrow> Inr (x # xs))"

subsection \<open>The file system\<close>

text \<open>
  A file system maps the path of a directory to the directory, which maps a file name
  to the file's contents. The runner's files are byte strings; the post-processor's
  files are netCDF files, read as their time coordinate and their variables.
\<close>

type_synonym 'a directory = "string \<rightharpoonup> 'a"
type_synonym 'a filesystem = "string \<rightharpoonup> 'a directory"

text \<open>\<^verbatim>\<open>shutil.rmtree\<close>: a missing directory raises \<^verbatim>\<open>FileNotFoundError\<close>.\<close>

definition rmtree :: "string \<Rightarrow> 'a filesystem \<Rightarrow> exn + 'a filesystem" where
  "rmtree d fs = (case fs d of None \<Rightarrow> Inl FileNotFoundError | Some _ \<Rightarrow> Inr (fs(d := None)))"

definition lookup_file :: "'a filesystem \<Rightarrow> string \<Rightarrow> string \<Rightarrow> 'a option" where
  "lookup_file fs d f = (case fs d of None \<Rightarrow> None | Some dir \<Rightarrow> dir f)"

text \<open>
  Writing a file (\<^verbatim>\<open>open(path, 'wb')\<close> and \<^verbatim>\<open>to_netcdf(path)\<close>) creates or replaces it; in
  a missing directory it raises \<^verbatim>\<open>FileNotFoundError\<close>.
\<close>

definition write_file :: "string \<Rightarrow> string \<Rightarrow> 'a \<Rightarrow> 'a filesystem \<Rightarrow> exn + 'a filesystem" where
  "write_file d f content fs =
     (case fs d of
        None \<Rightarrow> Inl FileNotFoundError
      | Some dir \<Rightarrow> Inr (fs(d \<mapsto> dir(f \<mapsto> content))))"

text \<open>\<^verbatim>\<open>os.path.basename\<close> of a path with its trailing separators stripped.\<close>

definition basename :: "string \<Rightarrow> string" where
  "basename p =
     rev (takeWhile (\<lambda>c. c \<noteq> CHR ''/'') (dropWhile (\<lambda>c. c = CHR ''/'') (rev p)))"

subsection \<open>Datasets of the post-processor\<close>

record nc_file =
  nc_time :: "int list"
  nc_vars :: string

text \<open>
  An \<^verbatim>\<open>xarray.Dataset\<close> of the post-processor: the time coordinate, the values of the x
  and of the y coordinate (a scalar coordinate is a list of one value), and the values of
  the cells, by position along the y dimension (outer list) and along the x dimension
  (inner list). The values of a cell are those of the variables read from its files;
  \<open>None\<close> is a cell that a concatenation has filled in (with \<^verbatim>\<open>NaN\<close>) where a dataset had
  no cell at an x coordinate value.
\<close>

record dataset =
  time :: "int list"
  x_values :: "real list"
  y_values :: "real list"
  data :: "string list option list list"

text \<open>
  \<^verbatim>\<open>xr.concat(datasets, dim)\<close> joins the datasets along \<open>dim\<close> in the order of the list,
  after it has aligned them along their other indexes; it raises \<^verbatim>\<open>ValueError\<close> on an
  empty list. The time coordinate is that of the first dataset: the files of one job
  hold the same time points, so the alignment along time changes nothing.

  Along x, the datasets joined are the cells of a row. Their x coordinate values are
  joined in the order of the list. Their y coordinate is a scalar, which is no index
  and is not aligned; \<open>pp_tile\<close> groups the cells by \<open>y_global\<close> and \<open>pp_cell\<close> reads the
  y coordinate value at that index, so the cells of a row have the same value, and it
  stays the scalar y coordinate of the row.
\<close>

definition xr_concat_x :: "dataset list \<Rightarrow> exn + dataset" where
  "xr_concat_x dss =
     (case dss of
        [] \<Rightarrow> Inl ValueError
      | ds # _ \<Rightarrow>
          Inr \<lparr>time = time ds, x_values = concat (map x_values dss), y_values = y_values ds,
               data = [concat (map (\<lambda>d. concat (data d)) dss)]\<rparr>)"

text \<open>
  Along y, the datasets joined are rows or tiles, and the x coordinate is an index of
  each. When all have the same x coordinate values in the same order, nothing is
  aligned and the rows are joined as they are. Otherwise \<^verbatim>\<open>xr.concat\<close> aligns them (an
  outer join): the x coordinate of the result is the union of the x coordinate values in
  ascending order, every dataset is reindexed to it (\<open>reindex_x\<close>: the cell that has the x
  coordinate value, or a filled cell), and a dataset whose x coordinate values are not
  distinct cannot be reindexed, which raises \<^verbatim>\<open>ValueError\<close>.
\<close>

definition reindex_x :: "real list \<Rightarrow> dataset \<Rightarrow> string list option list list" where
  "reindex_x joined ds =
     map (\<lambda>row. map (\<lambda>x. case map_of (zip (x_values ds) row) x of
                            None \<Rightarrow> None
                          | Some v \<Rightarrow> v) joined)
       (data ds)"

definition xr_concat_y :: "dataset list \<Rightarrow> exn + dataset" where
  "xr_concat_y dss =
     (case dss of
        [] \<Rightarrow> Inl ValueError
      | ds # _ \<Rightarrow>
          if list_all (\<lambda>d. x_values d = x_values ds) dss then
            Inr \<lparr>time = time ds, x_values = x_values ds, y_values = concat (map y_values dss),
                 data = concat (map data dss)\<rparr>
          else if list_ex (\<lambda>d. \<not> distinct (x_values d)) dss then Inl ValueError
          else
            (let joined = sort (remdups (concat (map x_values dss)))
             in Inr \<lparr>time = time ds, x_values = joined, y_values = concat (map y_values dss),
                     data = concat (map (reindex_x joined) dss)\<rparr>))"

text \<open>
  \<^verbatim>\<open>ds[config.yname].values\<close>, the y coordinate values of a dataset, is the field
  \<open>y_values\<close>.
\<close>

text \<open>\<^verbatim>\<open>.max()\<close> of an array; an empty array raises \<^verbatim>\<open>ValueError\<close>.\<close>

definition values_max :: "real list \<Rightarrow> exn + real" where
  "values_max vs = (case vs of [] \<Rightarrow> Inl ValueError | v # rest \<Rightarrow> Inr (fold max rest v))"

subsection \<open>Post-processing a cell and a tile (\<^verbatim>\<open>pp_cell\<close>, \<^verbatim>\<open>pp_tile\<close>)\<close>

definition SCM_OUT_FILES :: "string list" where
  "SCM_OUT_FILES = [''diagvar.nc'', ''diagvar2.nc'', ''progvar.nc'']"

record coordinate_templates =
  x_coord :: "real list"
  y_coord :: "real list"

text \<open>
  \<^verbatim>\<open>xr.open_dataset\<close> of the file \<open>filename\<close> in \<open>dirpath\<close>: a missing directory or file, or
  a file that is not a netCDF file (no variables at all), raises \<^verbatim>\<open>OSError\<close>.
\<close>

definition open_dataset :: "nc_file filesystem \<Rightarrow> string \<Rightarrow> string \<Rightarrow> exn + nc_file" where
  "open_dataset fs dirpath filename =
     (case fs dirpath of
        None \<Rightarrow> Inl OSError
      | Some d \<Rightarrow>
          (case d filename of
             None \<Rightarrow> Inl OSError
           | Some f \<Rightarrow> if nc_vars f = [] then Inl OSError else Inr f))"

text \<open>Indexing a coordinate array: out of range raises \<^verbatim>\<open>IndexError\<close>.\<close>

definition coord_at :: "real list \<Rightarrow> nat \<Rightarrow> exn + real" where
  "coord_at vs i = (if i < length vs then Inr (vs ! i) else Inl IndexError)"

text \<open>
  \<^verbatim>\<open>xr.auto_combine(ds_list)\<close> merges the variables of the three files of a cell (the
  list is never empty here); the result is given with the scalar coordinates that
  \<^verbatim>\<open>cell_ds.coords.update\<close> attaches after the \<^verbatim>\<open>try\<close> block. The variables that
  \<^verbatim>\<open>drop_variables\<close> leaves out are no part of the model: the contents of a file are one
  value.
\<close>

definition auto_combine :: "nc_file list \<Rightarrow> real \<Rightarrow> real \<Rightarrow> exn + dataset" where
  "auto_combine ds_list xv yv =
     (case ds_list of
        [] \<Rightarrow> Inl ValueError
      | f # _ \<Rightarrow> Inr \<lparr>time = nc_time f, x_values = [xv], y_values = [yv],
                      data = [[Some (map nc_vars ds_list)]]\<rparr>)"

definition pp_cell ::
  "cell \<Rightarrow> string \<Rightarrow> coordinate_templates \<Rightarrow> config \<Rightarrow> nc_file filesystem
     \<Rightarrow> exn + (dataset \<times> string)" where
  "pp_cell c timestamp coordinate_templates cfg fs =
     (let dirname = timestamp @ ''.'' @ cell_id c;
          dirpath = pjoin (output_directory cfg) dirname;
          filepaths = map (pjoin dirpath) SCM_OUT_FILES
      in case sequence (map (open_dataset fs dirpath) SCM_OUT_FILES) of
           Inl e \<Rightarrow>
             if is_OSError e \<or> e = RuntimeError then Inl (Error (CannotReadCellFiles filepaths))
             else Inl e
         | Inr ds_list \<Rightarrow>
             (case coord_at (x_coord coordinate_templates) (x_global c) of
                Inl e \<Rightarrow> Inl e
              | Inr xv \<Rightarrow>
                  (case coord_at (y_coord coordinate_templates) (y_global c) of
                     Inl e \<Rightarrow> Inl e
                   | Inr yv \<Rightarrow>
                       (case auto_combine ds_list xv yv of
                          Inl e \<Rightarrow> Inl e
                        | Inr cell_ds \<Rightarrow> Inr (cell_ds, dirpath)))))"

text \<open>
  The \<^verbatim>\<open>OrderedDict\<close> \<open>grid_rows\<close> is an association list in insertion order:
  \<^verbatim>\<open>grid_rows[y].append(ds)\<close> extends the row of an existing key in place, and the
  \<^verbatim>\<open>KeyError\<close> branch adds a new key at the end.
\<close>

fun grid_rows_append :: "nat \<Rightarrow> 'a \<Rightarrow> (nat \<times> 'a list) list \<Rightarrow> (nat \<times> 'a list) list" where
  "grid_rows_append y ds [] = [(y, [ds])]"
| "grid_rows_append y ds ((k, row) # rest) =
     (if k = y then (k, row @ [ds]) # rest else (k, row) # grid_rows_append y ds rest)"

record tile =
  tile_id :: nat
  cells :: "cell list"

text \<open>The first loop of \<^verbatim>\<open>pp_tile\<close>, over \<^verbatim>\<open>tile.cells()\<close>.\<close>

fun pp_tile_cells ::
  "string \<Rightarrow> coordinate_templates \<Rightarrow> config \<Rightarrow> nc_file filesystem \<Rightarrow> cell list
     \<Rightarrow> (nat \<times> dataset list) list \<times> string list
     \<Rightarrow> exn + ((nat \<times> dataset list) list \<times> string list)" where
  "pp_tile_cells timestamp ct cfg fs [] acc = Inr acc"
| "pp_tile_cells timestamp ct cfg fs (c # cs) (grid_rows, filepaths) =
     (case pp_cell c timestamp ct cfg fs of
        Inl e \<Rightarrow> Inl e
      | Inr (cell_ds, cell_filepath) \<Rightarrow>
          pp_tile_cells timestamp ct cfg fs cs
            (grid_rows_append (y_global c) cell_ds grid_rows, filepaths @ [cell_filepath]))"

definition pp_tile ::
  "config \<Rightarrow> string \<Rightarrow> coordinate_templates \<Rightarrow> nc_file filesystem \<Rightarrow> tile
     \<Rightarrow> exn + (dataset \<times> string list)" where
  "pp_tile cfg timestamp ct fs t =
     (case pp_tile_cells timestamp ct cfg fs (cells t) ([], []) of
        Inl e \<Rightarrow> Inl e
      | Inr (grid_rows, filepaths) \<Rightarrow>
          (case sequence (map (\<lambda>(key, row). xr_concat_x row) grid_rows) of
             Inl e \<Rightarrow> Inl e
           | Inr row_dss \<Rightarrow>
               (if 1 < length row_dss then
                  (case xr_concat_y row_dss of
                     Inl e \<Rightarrow> Inl e
                   | Inr tile_ds \<Rightarrow> Inr (tile_ds, filepaths))
                else
                  (case row_dss of
                     [tile_ds] \<Rightarrow> Inr (tile_ds, filepaths)
                   | _ \<Rightarrow> Inl ValueError))))"

subsection \<open>The grid (\<^verbatim>\<open>post_process\<close>, \<^verbatim>\<open>main\<close>)\<close>

text \<open>
  \<^verbatim>\<open>sorted(datasets, key=lambda ds: ds[config.yname].values.max())\<close>: the keys are
  computed first, one for each dataset, then the datasets are sorted by key; the sort
  is stable.
\<close>

definition sorted_by_max_y :: "dataset list \<Rightarrow> exn + dataset list" where
  "sorted_by_max_y dss =
     (case sequence (map (\<lambda>ds. values_max (y_values ds)) dss) of
        Inl e \<Rightarrow> Inl e
      | Inr keys \<Rightarrow> Inr (map snd (sort_key fst (zip keys dss))))"

definition grid_dataset :: "dataset list \<Rightarrow> exn + dataset" where
  "grid_dataset dss =
     (case sorted_by_max_y dss of
        Inl e \<Rightarrow> Inl e
      | Inr sorted_dss \<Rightarrow> xr_concat_y sorted_dss)"

text \<open>
  What \<^verbatim>\<open>post_process\<close> gets from outside the sources: the configuration that
  \<^verbatim>\<open>SCMTilesConfig.from_file\<close> loads, the tiles of \<^verbatim>\<open>GridManager.decompose_by_rows\<close>,
  the coordinates read from the input file, and the exception, if any, that the statement
  \<^verbatim>\<open>dataset.transpose(...).to_netcdf(output_filepath)\<close> raises. The pool of worker
  processes maps \<open>pp_tile\<close> over the tiles and gives the results in the order of the
  tiles, or raises what a worker raised; the log lines of the workers are left out.
\<close>

record pp_env =
  from_file :: "exn + config"
  decompose_by_rows :: "config \<Rightarrow> tile list"
  input_coordinates :: "exn + coordinate_templates"
  to_netcdf_raises :: "exn option"

datatype pp_log_entry =
    InfoRunning
  | InfoLoadingTemplates
  | InfoDispatching int
  | InfoWriting string
  | InfoDeleting
  | InfoDeleted string
  | LogError exn

record pp_state =
  cell_files :: "nc_file filesystem"
  written :: "(string \<times> dataset) list"
  pp_log :: "pp_log_entry list"

definition pp_info :: "pp_log_entry \<Rightarrow> pp_state \<Rightarrow> pp_state" where
  "pp_info entry st = st\<lparr>pp_log := pp_log st @ [entry]\<rparr>"

definition load_coordinate_templates :: "pp_env \<Rightarrow> exn + coordinate_templates" where
  "load_coordinate_templates env =
     (case input_coordinates env of
        Inl e \<Rightarrow>
          if e = RuntimeError then Inl (Error CannotOpenInput)
          else if e = ValueError then Inl (Error CannotExtractCoordinates)
          else Inl e
      | Inr ct \<Rightarrow> Inr ct)"

text \<open>
  Writing the grid file, \<^verbatim>\<open>try: ... to_netcdf(output_filepath)\<close>
  \<^verbatim>\<open>except RuntimeError as e: Error(...)\<close>: in the handler the \<^verbatim>\<open>Error\<close> is built and
  not raised, so after a \<^verbatim>\<open>RuntimeError\<close> the function goes on; any other exception
  leaves the function.
\<close>

definition write_grid :: "pp_env \<Rightarrow> string \<Rightarrow> dataset \<Rightarrow> pp_state \<Rightarrow> (exn + unit) \<times> pp_state" where
  "write_grid env output_filepath ds st =
     (case to_netcdf_raises env of
        None \<Rightarrow> (Inr (), st\<lparr>written := written st @ [(output_filepath, ds)]\<rparr>)
      | Some e \<Rightarrow> if e = RuntimeError then (Inr (), st) else (Inl e, st))"

text \<open>The loops over the directories of the cells: \<^verbatim>\<open>shutil.rmtree(dp)\<close>, then a log line.\<close>

fun delete_cell_dirs :: "string list \<Rightarrow> pp_state \<Rightarrow> (exn + unit) \<times> pp_state" where
  "delete_cell_dirs [] st = (Inr (), st)"
| "delete_cell_dirs (dp # dps) st =
     (case rmtree dp (cell_files st) of
        Inl e \<Rightarrow> (Inl e, st)
      | Inr fs' \<Rightarrow> delete_cell_dirs dps (pp_info (InfoDeleted dp) (st\<lparr>cell_files := fs'\<rparr>)))"

definition post_process :: "pp_env \<Rightarrow> int \<Rightarrow> bool \<Rightarrow> pp_state \<Rightarrow> (exn + unit) \<times> pp_state" where
  "post_process env num_processes delete_cell_files st =
     (if num_processes < 1 then (Inl (Error ProcessesNotPositive), st)
      else case from_file env of
        Inl e \<Rightarrow> (if e = ConfigurationError then Inl (Error BadConfiguration) else Inl e, st)
      | Inr cfg \<Rightarrow>
          let tiles = decompose_by_rows env cfg;
              st1 = pp_info InfoLoadingTemplates st
          in case load_coordinate_templates env of
               Inl e \<Rightarrow> (Inl e, st1)
             | Inr ct \<Rightarrow>
                 let timestamp = date_id (start_time cfg);
                     st2 = pp_info (InfoDispatching num_processes) st1
                 in case sequence (map (pp_tile cfg timestamp ct (cell_files st2)) tiles) of
                      Inl e \<Rightarrow> (Inl e, st2)
                    | Inr results \<Rightarrow>
                        (case grid_dataset (map fst results) of
                           Inl e \<Rightarrow> (Inl e, st2)
                         | Inr ds \<Rightarrow>
                             let ds' = ds\<lparr>time := rebase_time cfg (time ds)\<rparr>;
                                 output_filename = ''scm_out.'' @ timestamp @ ''.nc'';
                                 output_filepath = pjoin (output_directory cfg) output_filename;
                                 st3 = pp_info (InfoWriting output_filepath) st2
                             in case write_grid env output_filepath ds' st3 of
                                  (Inl e, st4) \<Rightarrow> (Inl e, st4)
                                | (Inr _, st4) \<Rightarrow>
                                    if delete_cell_files
                                    then delete_cell_dirs (concat (map snd results))
                                           (pp_info InfoDeleting st4)
                                    else (Inr (), st4)))"

text \<open>
  \<^verbatim>\<open>main\<close> returns the exit status: 1 after an \<^verbatim>\<open>Error\<close>, which it logs, and 0 otherwise.
  Any other exception leaves \<^verbatim>\<open>main\<close>; the interpreter then ends with status 1.
\<close>

fun is_Error :: "exn \<Rightarrow> bool" where
  "is_Error (Error _) = True"
| "is_Error _ = False"

definition main :: "pp_env \<Rightarrow> int \<Rightarrow> bool \<Rightarrow> pp_state \<Rightarrow> (exn + int) \<times> pp_state" where
  "main env num_processes delete st =
     (case post_process env num_processes delete (pp_info InfoRunning st) of
        (Inl e, st') \<Rightarrow>
          if is_Error e then (Inr 1, pp_info (LogError e) st') else (Inl e, st')
      | (Inr _, st') \<Rightarrow> (Inr 0, st'))"


section \<open>The tile runner (\<^verbatim>\<open>SCMTileRunner\<close>)\<close>

text \<open>
  What the runner gets from outside the sources: the methods of the parent class
  \<^verbatim>\<open>TileRunner\<close> of the scmtiles library (\<open>create_run_directory\<close>, \<open>link_template\<close>,
  \<open>get_cell\<close>), the model process that \<^verbatim>\<open>subprocess.run\<close> starts in the run directory
  (it raises, or completes and leaves the file system as the model wrote it), and the
  operating system's refusal of a move (\<open>move_raises\<close>: the exception \<^verbatim>\<open>shutil.move\<close>
  raises for a source and a destination, if any).
\<close>

record completed_process =
  returncode :: int
  stdout :: string
  stderr :: string

record runner_env =
  create_run_directory :: "string filesystem \<Rightarrow> exn + (string \<times> string filesystem)"
  link_template :: "string \<Rightarrow> string filesystem \<Rightarrow> exn + string filesystem"
  get_cell :: "cell \<Rightarrow> exn + string"
  subprocess_run :: "string \<Rightarrow> string filesystem \<Rightarrow> exn + (completed_process \<times> string filesystem)"
  move_raises :: "string \<Rightarrow> string \<Rightarrow> string filesystem \<Rightarrow> exn option"

record runner =
  runner_config :: config
  archive_failed_runs :: bool
  env :: runner_env

datatype run_log_entry =
    InfoCompleted cell
  | ErrorFailed cell exn

record run_state =
  files :: "string filesystem"
  run_log :: "run_log_entry list"

record cell_result =
  result_cell :: cell
  outputs :: "string list option"

subsection \<open>\<^verbatim>\<open>shutil.move\<close>\<close>

text \<open>
  Moving the file \<open>f\<close> of the directory \<open>d\<close> to the name \<open>name\<close> in the directory \<open>out\<close>:
  a missing source or a missing destination directory raises \<^verbatim>\<open>FileNotFoundError\<close>.
\<close>

definition shutil_move_file ::
  "runner_env \<Rightarrow> string \<Rightarrow> string \<Rightarrow> string \<Rightarrow> string \<Rightarrow> string filesystem
     \<Rightarrow> exn + string filesystem" where
  "shutil_move_file e d f out name fs =
     (case move_raises e (pjoin d f) (pjoin out name) fs of
        Some ex \<Rightarrow> Inl ex
      | None \<Rightarrow>
          (case fs d of
             None \<Rightarrow> Inl FileNotFoundError
           | Some dir \<Rightarrow>
               (case dir f of
                  None \<Rightarrow> Inl FileNotFoundError
                | Some content \<Rightarrow>
                    (let fs1 = fs(d \<mapsto> dir(f := None))
                     in case fs1 out of
                          None \<Rightarrow> Inl FileNotFoundError
                        | Some odir \<Rightarrow> Inr (fs1(out \<mapsto> odir(name \<mapsto> content)))))))"

text \<open>
  Moving a directory: when the destination is an existing directory the source is moved
  inside it, under its own base name, and that name must be free.
\<close>

definition shutil_move_dir ::
  "runner_env \<Rightarrow> string \<Rightarrow> string \<Rightarrow> string filesystem \<Rightarrow> exn + string filesystem" where
  "shutil_move_dir e src dst fs =
     (case move_raises e src dst fs of
        Some ex \<Rightarrow> Inl ex
      | None \<Rightarrow>
          (case fs src of
             None \<Rightarrow> Inl FileNotFoundError
           | Some dir \<Rightarrow>
               (if fs dst = None then Inr ((fs(src := None))(dst \<mapsto> dir))
                else let real_dst = pjoin dst (basename src)
                     in if fs real_dst = None then Inr ((fs(src := None))(real_dst \<mapsto> dir))
                        else Inl ShutilError)))"

subsection \<open>Staging (\<^verbatim>\<open>setup_openifs_scm\<close>, \<^verbatim>\<open>write_scm_input\<close>)\<close>

definition write_scm_input :: "runner \<Rightarrow> cell \<Rightarrow> string \<Rightarrow> run_state \<Rightarrow> (exn + string) \<times> run_state" where
  "write_scm_input r c run_directory st =
     (let scm_input_file_path = pjoin run_directory ''scm_in.nc''
      in case get_cell (env r) c of
           Inl e \<Rightarrow> (Inl e, st)
         | Inr cell_ds \<Rightarrow>
             (case write_file run_directory ''scm_in.nc'' cell_ds (files st) of
                Inl e \<Rightarrow> (Inl e, st)
              | Inr fs' \<Rightarrow> (Inr scm_input_file_path, st\<lparr>files := fs'\<rparr>)))"

definition setup_openifs_scm :: "runner \<Rightarrow> cell \<Rightarrow> run_state \<Rightarrow> (exn + string) \<times> run_state" where
  "setup_openifs_scm r c st =
     (case create_run_directory (env r) (files st) of
        Inl e \<Rightarrow> (Inl e, st)
      | Inr (run_directory, fs1) \<Rightarrow>
          (case link_template (env r) run_directory fs1 of
             Inl e \<Rightarrow> (Inl e, st\<lparr>files := fs1\<rparr>)
           | Inr fs2 \<Rightarrow>
               (case write_scm_input r c run_directory (st\<lparr>files := fs2\<rparr>) of
                  (Inl e, st') \<Rightarrow> (Inl e, st')
                | (Inr _, st') \<Rightarrow> (Inr run_directory, st'))))"

subsection \<open>Running and verifying (\<^verbatim>\<open>_scm_runner\<close>, \<^verbatim>\<open>_check_for_run_failures\<close>)\<close>

text \<open>
  The handlers of \<^verbatim>\<open>_scm_runner\<close> in their order: \<^verbatim>\<open>FileNotFoundError\<close>, then
  \<^verbatim>\<open>OSError\<close> (which takes \<^verbatim>\<open>PermissionError\<close> too, its subclass), then
  \<^verbatim>\<open>PermissionError\<close>.
\<close>

definition scm_runner ::
  "runner \<Rightarrow> string \<Rightarrow> run_state \<Rightarrow> (exn + completed_process) \<times> run_state" where
  "scm_runner r run_directory st =
     (case subprocess_run (env r) run_directory (files st) of
        Inl e \<Rightarrow>
          (if e = FileNotFoundError then
             Inl (SCMError (ExecutableNotFound (template_directory (runner_config r))))
           else if is_OSError e then Inl (SCMError LaunchFailed)
           else if e = PermissionError then
             Inl (SCMError (CannotExecute (template_directory (runner_config r))))
           else Inl e, st)
      | Inr (command_result, fs') \<Rightarrow> (Inr command_result, st\<lparr>files := fs'\<rparr>))"

definition expected_files :: "string list" where
  "expected_files = [''onecol.r'', ''progvar.nc'', ''diagvar.nc'', ''diagvar2.nc'']"

text \<open>
  The loop of \<^verbatim>\<open>_check_for_run_failures\<close>;
  \<^verbatim>\<open>not os.path.exists(f_path) or os.stat(f_path).st_size == 0\<close> is the test on the file.
\<close>

fun check_files :: "string \<Rightarrow> string filesystem \<Rightarrow> string list \<Rightarrow> exn + unit" where
  "check_files run_directory fs [] = Inr ()"
| "check_files run_directory fs (file_name # rest) =
     (let f_path = pjoin run_directory file_name
      in case lookup_file fs run_directory file_name of
           None \<Rightarrow> Inl (SCMError (MissingOrEmpty f_path))
         | Some content \<Rightarrow>
             if length content = 0 then Inl (SCMError (MissingOrEmpty f_path))
             else check_files run_directory fs rest)"

definition check_for_run_failures :: "string \<Rightarrow> string filesystem \<Rightarrow> exn + unit" where
  "check_for_run_failures run_directory fs = check_files run_directory fs expected_files"

subsection \<open>\<^verbatim>\<open>run_openifs_scm\<close>\<close>

text \<open>
  The \<^verbatim>\<open>try\<close> block. The name \<^verbatim>\<open>exit_code\<close> in
  \<^verbatim>\<open>raise SCMError(msg.format(exit_code))\<close> is bound nowhere, so evaluating the argument
  raises \<^verbatim>\<open>NameError\<close> before any \<^verbatim>\<open>SCMError\<close> is built. The result keeps
  \<open>command_result\<close> as an option: \<open>None\<close> is the unbound local variable.
\<close>

definition run_and_check ::
  "runner \<Rightarrow> string \<Rightarrow> run_state \<Rightarrow> (exn + unit) \<times> completed_process option \<times> run_state" where
  "run_and_check r run_directory st =
     (case scm_runner r run_directory st of
        (Inl e, st1) \<Rightarrow> (Inl e, None, st1)
      | (Inr command_result, st1) \<Rightarrow>
          (if returncode command_result \<noteq> 0 then (Inl (NameError ''exit_code''), Some command_result, st1)
           else (check_for_run_failures run_directory (files st1), Some command_result, st1)))"

text \<open>
  The first \<^verbatim>\<open>try\<close> of the handler: \<^verbatim>\<open>open(..., 'wb')\<close> creates \<^verbatim>\<open>stdout.txt\<close> before
  \<^verbatim>\<open>command_result\<close> is read, so with \<^verbatim>\<open>command_result\<close> unbound an empty
  \<^verbatim>\<open>stdout.txt\<close> is left, and the \<^verbatim>\<open>UnboundLocalError\<close> is passed over.
\<close>

definition dump_output ::
  "string \<Rightarrow> completed_process option \<Rightarrow> string filesystem \<Rightarrow> exn + string filesystem" where
  "dump_output run_directory command_result fs =
     (case command_result of
        None \<Rightarrow> write_file run_directory ''stdout.txt'' [] fs
      | Some cr \<Rightarrow>
          (case write_file run_directory ''stdout.txt'' (stdout cr) fs of
             Inl e \<Rightarrow> Inl e
           | Inr fs1 \<Rightarrow> write_file run_directory ''stderr.txt'' (stderr cr) fs1))"

definition archive_directory :: "runner \<Rightarrow> cell \<Rightarrow> string" where
  "archive_directory r c =
     pjoin (output_directory (runner_config r))
       (''failed.'' @ date_id (start_time (runner_config r)) @ ''.'' @ cell_id c)"

text \<open>
  The handler \<^verbatim>\<open>except SCMError\<close>: with \<open>archive_failed_runs\<close> the output is dumped and
  the run directory moved, a \<^verbatim>\<open>PermissionError\<close> or \<^verbatim>\<open>FileNotFoundError\<close> of the move
  being passed over; then the exception \<open>e\<close> is raised again. An exception that
  leaves the handler takes the place of \<open>e\<close>.
\<close>

definition archive_failed_run ::
  "runner \<Rightarrow> cell \<Rightarrow> string \<Rightarrow> completed_process option \<Rightarrow> exn \<Rightarrow> run_state
     \<Rightarrow> exn \<times> run_state" where
  "archive_failed_run r c run_directory command_result e st =
     (if archive_failed_runs r then
        (case dump_output run_directory command_result (files st) of
           Inl e' \<Rightarrow> (e', st)
         | Inr fs1 \<Rightarrow>
             (case shutil_move_dir (env r) run_directory (archive_directory r c) fs1 of
                Inl e' \<Rightarrow>
                  if e' = PermissionError \<or> e' = FileNotFoundError then (e, st\<lparr>files := fs1\<rparr>)
                  else (e', st\<lparr>files := fs1\<rparr>)
              | Inr fs2 \<Rightarrow> (e, st\<lparr>files := fs2\<rparr>)))
      else (e, st))"

definition run_openifs_scm :: "runner \<Rightarrow> cell \<Rightarrow> string \<Rightarrow> run_state \<Rightarrow> (exn + unit) \<times> run_state" where
  "run_openifs_scm r c run_directory st =
     (case run_and_check r run_directory st of
        (Inr u, _, st1) \<Rightarrow> (Inr u, st1)
      | (Inl e, command_result, st1) \<Rightarrow>
          if is_SCMError e then
            (case archive_failed_run r c run_directory command_result e st1 of
               (e', st2) \<Rightarrow> (Inl e', st2))
          else (Inl e, st1))"

subsection \<open>\<^verbatim>\<open>archive_results\<close>\<close>

definition archive_files :: "string list" where
  "archive_files = [''diagvar.nc'', ''diagvar2.nc'', ''progvar.nc'']"

definition target_name :: "runner \<Rightarrow> cell \<Rightarrow> string \<Rightarrow> string" where
  "target_name r c af =
     (case splitext af of
        (af_name, af_ext) \<Rightarrow>
          af_name @ ''.'' @ date_id (start_time (runner_config r)) @ ''.'' @ cell_id c @ af_ext)"

fun archive_loop ::
  "runner \<Rightarrow> cell \<Rightarrow> string \<Rightarrow> string list \<Rightarrow> string list \<Rightarrow> string filesystem
     \<Rightarrow> (exn + string list) \<times> string filesystem" where
  "archive_loop r c run_directory [] archived fs = (Inr archived, fs)"
| "archive_loop r c run_directory (af # rest) archived fs =
     (let out = output_directory (runner_config r);
          target = pjoin out (target_name r c af)
      in case shutil_move_file (env r) run_directory af out (target_name r c af) fs of
           Inl e \<Rightarrow>
             if e = PermissionError then (Inl (SCMError (ArchivePermissionDenied out)), fs)
             else if e = FileNotFoundError then (Inl (SCMError (ArchiveMayNotExist out)), fs)
             else (Inl e, fs)
         | Inr fs' \<Rightarrow> archive_loop r c run_directory rest (archived @ [target]) fs')"

definition archive_results ::
  "runner \<Rightarrow> cell \<Rightarrow> string \<Rightarrow> run_state \<Rightarrow> (exn + string list) \<times> run_state" where
  "archive_results r c run_directory st =
     (case archive_loop r c run_directory archive_files [] (files st) of
        (res, fs') \<Rightarrow> (res, st\<lparr>files := fs'\<rparr>))"

subsection \<open>\<^verbatim>\<open>run_cell\<close>\<close>

text \<open>
  The \<^verbatim>\<open>try\<close> block of \<^verbatim>\<open>run_cell\<close>: its result, and the local variable
  \<open>run_directory\<close> (\<open>None\<close> while it is unbound: \<^verbatim>\<open>setup_openifs_scm\<close> has not
  returned).
\<close>

definition run_cell_body ::
  "runner \<Rightarrow> cell \<Rightarrow> run_state \<Rightarrow> (exn + string list) \<times> string option \<times> run_state" where
  "run_cell_body r c st =
     (case setup_openifs_scm r c st of
        (Inl e, st1) \<Rightarrow> (Inl e, None, st1)
      | (Inr run_directory, st1) \<Rightarrow>
          (case run_openifs_scm r c run_directory st1 of
             (Inl e, st2) \<Rightarrow> (Inl e, Some run_directory, st2)
           | (Inr _, st2) \<Rightarrow>
               (case archive_results r c run_directory st2 of
                  (Inl e, st3) \<Rightarrow> (Inl e, Some run_directory, st3)
                | (Inr output_files, st3) \<Rightarrow> (Inr output_files, Some run_directory, st3))))"

text \<open>
  The \<^verbatim>\<open>finally\<close> block. \<open>run_successful\<close> is \<open>None\<close> when the \<^verbatim>\<open>try\<close> block was left
  by an exception that \<^verbatim>\<open>except (SCMError, TileRunError)\<close> does not take: the local
  variable is unbound then, and reading it raises \<^verbatim>\<open>UnboundLocalError\<close>. Around
  \<^verbatim>\<open>shutil.rmtree(run_directory)\<close> only the \<^verbatim>\<open>UnboundLocalError\<close> of an unbound
  \<open>run_directory\<close> is passed over.
\<close>

definition run_cell_finally ::
  "runner \<Rightarrow> bool option \<Rightarrow> string option \<Rightarrow> run_state \<Rightarrow> (exn + unit) \<times> run_state" where
  "run_cell_finally r run_successful run_directory st =
     (case run_successful of
        None \<Rightarrow> (Inl (UnboundLocalError ''run_successful''), st)
      | Some ok \<Rightarrow>
          if ok \<or> \<not> archive_failed_runs r then
            (case run_directory of
               None \<Rightarrow> (Inr (), st)
             | Some d \<Rightarrow>
                 (case rmtree d (files st) of
                    Inl e \<Rightarrow> (Inl e, st)
                  | Inr fs' \<Rightarrow> (Inr (), st\<lparr>files := fs'\<rparr>)))
          else (Inr (), st))"

definition run_log_add :: "run_log_entry \<Rightarrow> run_state \<Rightarrow> run_state" where
  "run_log_add entry st = st\<lparr>run_log := run_log st @ [entry]\<rparr>"

definition run_cell :: "runner \<Rightarrow> cell \<Rightarrow> run_state \<Rightarrow> (exn + cell_result) \<times> run_state" where
  "run_cell r c st =
     (case run_cell_body r c st of
        (Inr output_files, run_directory, st1) \<Rightarrow>
          (case run_cell_finally r (Some True) run_directory (run_log_add (InfoCompleted c) st1) of
             (Inl e, st2) \<Rightarrow> (Inl e, st2)
           | (Inr _, st2) \<Rightarrow> (Inr \<lparr>result_cell = c, outputs = Some output_files\<rparr>, st2))
      | (Inl e, run_directory, st1) \<Rightarrow>
          if is_TileRunError e then
            (case run_cell_finally r (Some False) run_directory (run_log_add (ErrorFailed c e) st1) of
               (Inl e', st2) \<Rightarrow> (Inl e', st2)
             | (Inr _, st2) \<Rightarrow> (Inr \<lparr>result_cell = c, outputs = None\<rparr>, st2))
          else
            (case run_cell_finally r None run_directory st1 of
               (Inl e', st2) \<Rightarrow> (Inl e', st2)
             | (Inr _, st2) \<Rightarrow> (Inl e, st2)))"

section \<open>Example inputs\<close>

text \<open>
  A job that starts at 2009-04-06 01:00:00, a run directory \<^verbatim>\<open>/work/run\<close>, an output
  directory \<^verbatim>\<open>/out\<close>, and a model process that ends with a given return code after
  writing given files.
\<close>

definition ex_config :: config where
  "ex_config =
     \<lparr>start_time = \<lparr>year = 2009, month = 4, day = 6, hour = 1, minute = 0, second = 0,
                     microsecond = 0\<rparr>,
      output_directory = ''/out'', template_directory = ''/tpl''\<rparr>"

definition model_process ::
  "int \<Rightarrow> (string \<times> string) list \<Rightarrow> string \<Rightarrow> string filesystem
     \<Rightarrow> exn + (completed_process \<times> string filesystem)" where
  "model_process code outs d fs =
     (case fs d of
        None \<Rightarrow> Inl FileNotFoundError
      | Some dir \<Rightarrow>
          Inr (\<lparr>returncode = code, stdout = ''out'', stderr = ''err''\<rparr>,
               fs(d \<mapsto> dir ++ map_of outs)))"

definition ex_env ::
  "(string \<Rightarrow> string filesystem \<Rightarrow> exn + (completed_process \<times> string filesystem))
     \<Rightarrow> exn option \<Rightarrow> runner_env" where
  "ex_env process refusal =
     \<lparr>create_run_directory = (\<lambda>fs. Inr (''/work/run'', fs(''/work/run'' \<mapsto> Map.empty))),
      link_template = (\<lambda>d fs. write_file d ''master1c.exe'' ''exe'' fs),
      get_cell = (\<lambda>c. Inr ''forcing''),
      subprocess_run = process,
      move_raises = (\<lambda>src dst fs. refusal)\<rparr>"

text \<open>
  The same environment with one refusal: the move to the name of the first archived file
  of the example cell raises \<^verbatim>\<open>PermissionError\<close> (a file of that name that the user may
  not replace is in the way, say), and no other move is refused.
\<close>

definition ex_env_stale ::
  "(string \<Rightarrow> string filesystem \<Rightarrow> exn + (completed_process \<times> string filesystem)) \<Rightarrow> runner_env" where
  "ex_env_stale process =
     (ex_env process None)
       \<lparr>move_raises :=
          (\<lambda>src dst fs. if dst = ''/out/diagvar.20090406_010000.y0012x0003.nc''
                         then Some PermissionError else None)\<rparr>"

definition ex_runner :: "bool \<Rightarrow> runner_env \<Rightarrow> runner" where
  "ex_runner keep e = \<lparr>runner_config = ex_config, archive_failed_runs = keep, env = e\<rparr>"

definition ex_state :: run_state where
  "ex_state = \<lparr>files = [''/out'' \<mapsto> Map.empty], run_log = []\<rparr>"

definition good_output :: "(string \<times> string) list" where
  "good_output =
     [(''onecol.r'', ''r''), (''progvar.nc'', ''p''), (''diagvar.nc'', ''d''),
      (''diagvar2.nc'', ''e'')]"

definition ex_cell :: cell where
  "ex_cell = \<lparr>x_global = 3, y_global = 12\<rparr>"

text \<open>A tile dataset of one row with one cell, at the y coordinate value \<open>y\<close>.\<close>

definition ex_row :: "real \<Rightarrow> dataset" where
  "ex_row y = \<lparr>time = [0, 900], x_values = [0], y_values = [y], data = [[Some [''d'', ''e'', ''p'']]]\<rparr>"

text \<open>
  A grid of two rows and two columns, one tile for each row. The output files of three
  cells are in the output directory; those of the cell in row 1, column 1 are not.
\<close>

definition ex_templates :: coordinate_templates where
  "ex_templates = \<lparr>x_coord = [10, 20], y_coord = [50, 40]\<rparr>"

definition ex_nc :: nc_file where
  "ex_nc = \<lparr>nc_time = [0, 900], nc_vars = ''v''\<rparr>"

definition ex_cell_dir :: "nc_file directory" where
  "ex_cell_dir = [''diagvar.nc'' \<mapsto> ex_nc, ''diagvar2.nc'' \<mapsto> ex_nc, ''progvar.nc'' \<mapsto> ex_nc]"

definition c00 :: cell where "c00 = \<lparr>x_global = 0, y_global = 0\<rparr>"
definition c10 :: cell where "c10 = \<lparr>x_global = 1, y_global = 0\<rparr>"
definition c01 :: cell where "c01 = \<lparr>x_global = 0, y_global = 1\<rparr>"
definition c11 :: cell where "c11 = \<lparr>x_global = 1, y_global = 1\<rparr>"

definition ex_cell_files :: "nc_file filesystem" where
  "ex_cell_files =
     [''/out/20090406_010000.y0000x0000'' \<mapsto> ex_cell_dir,
      ''/out/20090406_010000.y0000x0001'' \<mapsto> ex_cell_dir,
      ''/out/20090406_010000.y0001x0000'' \<mapsto> ex_cell_dir]"

text \<open>The values of a cell whose three files are \<open>ex_nc\<close>, and the dataset of such a cell.\<close>

definition ex_vars :: "string list option" where
  "ex_vars = Some [''v'', ''v'', ''v'']"

definition ex_cell_ds :: "real \<Rightarrow> real \<Rightarrow> dataset" where
  "ex_cell_ds x y = \<lparr>time = [0, 900], x_values = [x], y_values = [y], data = [[ex_vars]]\<rparr>"

definition ex_pp_env :: "exn option \<Rightarrow> pp_env" where
  "ex_pp_env w =
     \<lparr>from_file = Inr ex_config,
      decompose_by_rows = (\<lambda>cfg. [\<lparr>tile_id = 0, cells = [c00, c10]\<rparr>, \<lparr>tile_id = 1, cells = [c01, c11]\<rparr>]),
      input_coordinates = Inr ex_templates,
      to_netcdf_raises = w\<rparr>"

definition ex_pp_state :: "nc_file filesystem \<Rightarrow> pp_state" where
  "ex_pp_state fs = \<lparr>cell_files = fs, written = [], pp_log = []\<rparr>"





text \<open>The example run directory after staging, and the file system that holds it.\<close>

definition ex_run_dir :: "string directory" where
  "ex_run_dir = [''master1c.exe'' \<mapsto> ''exe'', ''scm_in.nc'' \<mapsto> ''forcing'']"

definition ex_staged :: "string filesystem" where
  "ex_staged = [''/out'' \<mapsto> Map.empty, ''/work/run'' \<mapsto> ex_run_dir]"

text \<open>The same grid with the output files of all four cells.\<close>

definition ex_all_files :: "nc_file filesystem" where
  "ex_all_files = ex_cell_files(''/out/20090406_010000.y0001x0001'' \<mapsto> ex_cell_dir)"

section \<open>Properties\<close>

subsection \<open>Formatted names\<close>

lemma replicate_numeral_Cons: "replicate (numeral k) x = x # replicate (pred_numeral k) x"
  by (simp add: numeral_eq_Suc)

lemmas fmt = zero_pad_def digit_char_def digits.simps replicate_numeral_Cons

lemma cell_id_ex_cell: "cell_id ex_cell = ''y0012x0003''"
  by (simp add: cell_id_def ex_cell_def fmt)

lemma date_id_ex_config: "date_id (start_time ex_config) = ''20090406_010000''"
  by (simp add: date_id_def ex_config_def fmt)

lemma ex_out: "output_directory ex_config = ''/out''"
  by (simp add: ex_config_def)

subsection \<open>The time coordinate\<close>

text \<open>\<open>np_round_div a d\<close> is an integer nearest to the quotient: at most half of \<open>d\<close> from \<open>a\<close>.\<close>

lemma np_round_div_nearest:
  assumes "0 < d"
  shows "2 * \<bar>a - np_round_div a d * d\<bar> \<le> d"
proof -
  have m: "a = (a div d) * d + a mod d" by simp
  have r0: "0 \<le> a mod d" and r1: "a mod d < d" using assms by simp_all
  have e: "a - (a div d) * d = a mod d"
    by (simp add: minus_div_mult_eq_mod)
  have e1: "a - (a div d + 1) * d = a mod d - d"
    using e by (simp add: algebra_simps)
  show ?thesis
    unfolding np_round_div_def Let_def using r0 r1 e e1
    by (auto simp del: minus_div_mult_eq_mod)
qed

lemmas binary64 =
  round_seconds_def float64_of_int_def float64_div_def np_round_def np_round_div_def
  bit_length.simps Let_def

lemma round_seconds_ex:
  "round_seconds 1238979600000000000 = 1238979600"
  "round_seconds 1238980500400000000 = 1238980500"
  "round_seconds 1238981400400000000 = 1238981400"
  "round_seconds 1238980501499999999 = 1238980502"
  by (simp_all add: binary64)

lemma base_time_ex: "base_time ex_config = 1238979600"
  by (simp add: base_time_def ex_config_def days_from_civil_def seconds_since_midnight_def)

text \<open>
  The three coordinates of \<open>time_to_ifs\<close>, for a time coordinate with at least one time
  point: each has the length of the time coordinate, \<open>date\<close> and \<open>second\<close> are constant,
  and \<open>time\<close> counts the seconds from the first time point, both rounded by
  \<open>round_seconds\<close>.
\<close>

lemma time_to_ifs_shape:
  assumes "tile_time \<noteq> []"
  shows "time_to_ifs cfg tile_time
           = Inr \<lparr>date_coord = replicate (length tile_time) (yyyymmdd (start_time cfg)),
                  second_coord = replicate (length tile_time) (seconds_since_midnight (start_time cfg)),
                  time_coord = map (\<lambda>t. round_seconds t - round_seconds (hd tile_time)) tile_time\<rparr>"
proof -
  obtain t0 ts where t: "tile_time = t0 # ts"
    using assms by (cases tile_time) auto
  show ?thesis
    unfolding t time_to_ifs_def since_first_def Let_def by simp
qed

text \<open>
  C6 (the code departs from the claim). The comment in \<^verbatim>\<open>_time_to_ifs\<close> says that the
  times are rounded to the nearest second, and so does the claim. The rounding goes
  through a binary64 division, and close to a half second it gives the other second.
  With the reference time 2009-04-06 01:00:00 and the time points 01:00:00 and
  01:15:01.499999999, the nearest whole seconds are 0 s and 901 s after the first time
  point; the \<open>time\<close> coordinate holds 0 and 902. The time point 1238980501499999999 ns
  is converted to the binary64 number 1238980501500000000, the quotient by \<open>10\<^sup>9\<close> is
  1238980501.5 exactly, and the tie goes to the even second 1238980502, which is
  500000001 ns away from the time point, where 1238980501 is 499999999 ns away.
\<close>

theorem time_to_ifs_not_nearest:
  "time_to_ifs ex_config [1238979600000000000, 1238980501499999999]
     = Inr \<lparr>date_coord = [20090406, 20090406], second_coord = [3600, 3600], time_coord = [0, 902]\<rparr>
   \<and> float64_of_int 1238980501499999999 = (4839767583984375, 8)
   \<and> (4839767583984375 :: int) * 2 ^ 8 = 1238980501500000000
   \<and> round_seconds 1238980501499999999 = 1238980502
   \<and> \<bar>1238980501499999999 - 1238980502 * 1000000000 :: int\<bar> = 500000001
   \<and> \<bar>1238980501499999999 - 1238980501 * 1000000000 :: int\<bar> = 499999999"
  by (simp add: time_to_ifs_def since_first_def Let_def ex_config_def yyyymmdd_def
      seconds_since_midnight_def round_seconds_ex float64_of_int_def np_round_div_def
      bit_length.simps)

text \<open>
  C3 (the code departs from the claim). The docstring of \<^verbatim>\<open>_time_to_ifs\<close> says that the
  \<open>time\<close> coordinate is the valid time of the forcing in seconds since the reference
  time, which is what the round trip of the claim needs; the code takes the seconds since
  the first time point (\<^verbatim>\<open>time_rs - time_rs[0]\<close>). So the rebase of the relative time
  gives, for every time point, the reference time plus the seconds from the first time
  point to this one (both as \<open>round_seconds\<close> gives them): the time coordinate comes back
  shifted by the time from the reference time to the first time point.
\<close>

theorem time_round_trip:
  assumes "tile_time \<noteq> []"
  shows "\<exists>r. time_to_ifs cfg tile_time = Inr r
           \<and> rebase_time cfg (time_coord r)
               = map (\<lambda>t. base_time cfg + (round_seconds t - round_seconds (hd tile_time)))
                   tile_time"
  unfolding time_to_ifs_shape [OF assms] rebase_time_def by (simp add: o_def)

text \<open>
  The witness: the reference time 2009-04-06 01:00:00 (1238979600 s) and a forcing with
  the time points 01:15:00.4 and 01:30:00.4. Rounded to the nearest second they are
  1238980500 s and 1238981400 s; the round trip gives 1238979600 s and 1238980500 s,
  that is 01:00:00 and 01:15:00.
\<close>

theorem time_round_trip_witness:
  "[1238980500400000000, 1238981400400000000] \<noteq> ([] :: int list)
   \<and> (\<exists>r. time_to_ifs ex_config [1238980500400000000, 1238981400400000000] = Inr r
        \<and> rebase_time ex_config (time_coord r) = [1238979600, 1238980500])
   \<and> map round_seconds [1238980500400000000, 1238981400400000000] = [1238980500, 1238981400]
   \<and> 2 * \<bar>1238980500400000000 - 1238980500 * 1000000000 :: int\<bar> \<le> 1000000000
   \<and> 2 * \<bar>1238981400400000000 - 1238981400 * 1000000000 :: int\<bar> \<le> 1000000000"
proof -
  have h: "[1238980500400000000, 1238981400400000000] \<noteq> ([] :: int list)" by simp
  from time_round_trip [OF h, of ex_config]
  obtain r where r: "time_to_ifs ex_config [1238980500400000000, 1238981400400000000] = Inr r"
    and e: "rebase_time ex_config (time_coord r)
              = map (\<lambda>t. base_time ex_config
                          + (round_seconds t
                             - round_seconds (hd [1238980500400000000, 1238981400400000000])))
                  [1238980500400000000, 1238981400400000000]"
    by blast
  from e have "rebase_time ex_config (time_coord r) = [1238979600, 1238980500]"
    by (simp add: base_time_ex round_seconds_ex)
  with r have "\<exists>r. time_to_ifs ex_config [1238980500400000000, 1238981400400000000] = Inr r
        \<and> rebase_time ex_config (time_coord r) = [1238979600, 1238980500]"
    by blast
  then show ?thesis by (simp add: round_seconds_ex)
qed

subsection \<open>Assembling the grid\<close>

lemma values_max_eq:
  "values_max vs = (if vs = [] then Inl ValueError else Inr (Max (set vs)))"
proof (cases vs)
  case Nil
  then show ?thesis by (simp add: values_max_def)
next
  case (Cons v rest)
  then show ?thesis using Max.set_eq_fold [of v rest] by (simp add: values_max_def)
qed

lemma sequence_max_y:
  "sequence (map (\<lambda>ds. values_max (y_values ds)) dss)
     = (if \<exists>ds \<in> set dss. y_values ds = [] then Inl ValueError
        else Inr (map (\<lambda>ds. Max (set (y_values ds))) dss))"
  by (induction dss) (auto simp: values_max_eq)

lemma map_snd_insort_key:
  assumes "\<forall>p \<in> set ps. fst p = k (snd p)"
  shows "map snd (insort_key fst (k x, x) ps) = insort_key k x (map snd ps)"
  using assms by (induction ps) auto

lemma sort_key_zip:
  "map snd (sort_key fst (zip (map k xs) xs)) = sort_key k xs"
proof (induction xs)
  case Nil
  show ?case by simp
next
  case (Cons x xs)
  have inv: "\<forall>p \<in> set (sort_key fst (zip (map k xs) xs)). fst p = k (snd p)"
    by (auto simp: set_zip)
  show ?case
    using Cons map_snd_insort_key [OF inv, of x] by simp
qed

lemma sorted_by_max_y_eq:
  "sorted_by_max_y dss
     = (if \<exists>ds \<in> set dss. y_values ds = [] then Inl ValueError
        else Inr (sort_key (\<lambda>ds. Max (set (y_values ds))) dss))"
  by (simp add: sorted_by_max_y_def sequence_max_y sort_key_zip)

lemma filter_key_single:
  assumes "distinct (map f zs)" and "a \<in> set zs"
  shows "filter (\<lambda>x. f a = f x) zs = [a]"
  using assms
proof (induction zs)
  case Nil
  then show ?case by simp
next
  case (Cons z zs)
  show ?case
  proof (cases "a = z")
    case True
    have "filter (\<lambda>x. f z = f x) zs = []"
      using Cons.prems(1) by (auto simp: filter_empty_conv)
    with True show ?thesis by simp
  next
    case False
    with Cons.prems have a: "a \<in> set zs" by simp
    then have "f a \<in> f ` set zs" by (rule imageI)
    with Cons.prems(1) have "f a \<noteq> f z" by auto
    with Cons a show ?thesis by simp
  qed
qed

lemma sort_key_permutation:
  assumes "mset xs' = mset xs" and "distinct (map f xs)"
  shows "sort_key f xs' = sort_key f xs"
proof (rule properties_for_sort_key)
  show "mset (sort_key f xs) = mset xs'" using assms(1) by simp
  show "sorted (map f (sort_key f xs))" by simp
  fix k assume k: "k \<in> set (sort_key f xs)"
  have d': "distinct (map f xs')"
    using assms mset_eq_imp_distinct_iff [of "map f xs'" "map f xs"] by simp
  have d'': "distinct (map f (sort_key f xs))"
    using assms(2) mset_eq_imp_distinct_iff [of "map f (sort_key f xs)" "map f xs"] by simp
  have "k \<in> set xs'" using k assms(1) mset_eq_setD by fastforce
  then show "filter (\<lambda>x. f k = f x) (sort_key f xs) = filter (\<lambda>x. f k = f x) xs'"
    using filter_key_single [OF d'' k] filter_key_single [OF d'] by simp
qed

text \<open>
  C5. The tile datasets are sorted by the maximum y coordinate value present in each
  (the key is computed from the coordinate values of the dataset; a tile id is no part of
  a dataset) before they are concatenated along the y dimension. For tile datasets with
  distinct maximum values, any permutation of them gives the same sorted list and the
  same grid dataset, which is the concatenation of the tiles sorted by that key.
\<close>

theorem grid_dataset_order_independent:
  assumes "mset dss' = mset dss"
    and "distinct (map (\<lambda>ds. values_max (y_values ds)) dss)"
  shows "sorted_by_max_y dss' = sorted_by_max_y dss
       \<and> grid_dataset dss' = grid_dataset dss
       \<and> ((\<forall>ds \<in> set dss. y_values ds \<noteq> []) \<longrightarrow>
            sorted_by_max_y dss = Inr (sort_key (\<lambda>ds. Max (set (y_values ds))) dss)
          \<and> grid_dataset dss' = xr_concat_y (sort_key (\<lambda>ds. Max (set (y_values ds))) dss))"
proof -
  have s: "set dss' = set dss" using assms(1) by (rule mset_eq_setD)
  have eq: "sorted_by_max_y dss' = sorted_by_max_y dss"
  proof (cases "\<exists>ds \<in> set dss. y_values ds = []")
    case True
    then show ?thesis using s by (simp add: sorted_by_max_y_eq)
  next
    case False
    have "inj_on (\<lambda>ds. values_max (y_values ds)) (set dss)"
      using assms(2) by (simp add: distinct_map)
    then have "inj_on (\<lambda>ds. Max (set (y_values ds))) (set dss)"
      using False by (auto simp: inj_on_def values_max_eq)
    moreover have "distinct dss" using assms(2) by (simp add: distinct_map)
    ultimately have "distinct (map (\<lambda>ds. Max (set (y_values ds))) dss)"
      by (simp add: distinct_map)
    from sort_key_permutation [OF assms(1) this] False s
    show ?thesis by (simp add: sorted_by_max_y_eq)
  qed
  then show ?thesis
    by (auto simp: grid_dataset_def sorted_by_max_y_eq)
qed

text \<open>The witness: two one-row tiles at the y values 40 and 50, given in both orders.\<close>

theorem grid_dataset_order_independent_witness:
  "mset [ex_row 50, ex_row 40] = mset [ex_row 40, ex_row 50]
   \<and> distinct (map (\<lambda>ds. values_max (y_values ds)) [ex_row 40, ex_row 50])
   \<and> y_values (ex_row 40) \<noteq> [] \<and> y_values (ex_row 50) \<noteq> []
   \<and> grid_dataset [ex_row 50, ex_row 40] = grid_dataset [ex_row 40, ex_row 50]
   \<and> grid_dataset [ex_row 50, ex_row 40]
        = Inr \<lparr>time = [0, 900], x_values = [0], y_values = [40, 50],
               data = data (ex_row 40) @ data (ex_row 50)\<rparr>"
proof -
  have m: "mset [ex_row 50, ex_row 40] = mset [ex_row 40, ex_row 50]" by simp
  have d: "distinct (map (\<lambda>ds. values_max (y_values ds)) [ex_row 40, ex_row 50])"
    by (simp add: values_max_def ex_row_def)
  have n: "\<forall>ds \<in> set [ex_row 40, ex_row 50]. y_values ds \<noteq> []"
    by (simp add: ex_row_def)
  have k: "Max (set (y_values (ex_row y))) = y" for y
    by (simp add: ex_row_def)
  from grid_dataset_order_independent [OF m d] n
  have "grid_dataset [ex_row 50, ex_row 40] = grid_dataset [ex_row 40, ex_row 50]"
    and "grid_dataset [ex_row 50, ex_row 40]
           = xr_concat_y (sort_key (\<lambda>ds. Max (set (y_values ds))) [ex_row 40, ex_row 50])"
    by blast+
  moreover have "sort_key (\<lambda>ds. Max (set (y_values ds))) [ex_row 40, ex_row 50]
                   = [ex_row 40, ex_row 50]"
    by (simp add: k)
  moreover have "xr_concat_y [ex_row 40, ex_row 50]
                   = Inr \<lparr>time = [0, 900], x_values = [0], y_values = [40, 50],
                          data = data (ex_row 40) @ data (ex_row 50)\<rparr>"
    by (simp add: xr_concat_y_def ex_row_def)
  ultimately show ?thesis using m d n by simp
qed

subsection \<open>Assembling a tile\<close>












lemma cell_ids:
  "cell_id c00 = ''y0000x0000''" "cell_id c10 = ''y0000x0001''"
  "cell_id c01 = ''y0001x0000''" "cell_id c11 = ''y0001x0001''"
  by (simp_all add: cell_id_def c00_def c10_def c01_def c11_def fmt)

lemma cell_xy:
  "x_global c00 = 0" "y_global c00 = 0" "x_global c10 = 1" "y_global c10 = 0"
  "x_global c01 = 0" "y_global c01 = 1" "x_global c11 = 1" "y_global c11 = 1"
  by (simp_all add: c00_def c10_def c01_def c11_def)






subsection \<open>An unreadable cell in the post-processor\<close>








subsection \<open>The steps of a cell run\<close>

lemma check_files_Inr:
  "check_files rd fs l = Inr u
     \<longleftrightarrow> (\<forall>f \<in> set l. \<exists>content. lookup_file fs rd f = Some content \<and> content \<noteq> [])"
  by (induction l) (auto simp: Let_def split: option.splits)

lemma check_files_Inl:
  assumes "check_files rd fs l = Inl e"
  shows "\<exists>f \<in> set l. e = SCMError (MissingOrEmpty (pjoin rd f))
           \<and> (lookup_file fs rd f = None \<or> lookup_file fs rd f = Some [])"
  using assms by (induction l) (auto simp: Let_def split: option.splits if_splits)

lemma check_for_run_failures_cases:
  "(\<exists>e. check_for_run_failures rd fs = Inl e)
     \<longleftrightarrow> (\<exists>f \<in> set expected_files. lookup_file fs rd f = None \<or> lookup_file fs rd f = Some [])"
proof -
  have "(\<exists>e. check_for_run_failures rd fs = Inl e) \<longleftrightarrow> check_for_run_failures rd fs \<noteq> Inr ()"
    by (cases "check_for_run_failures rd fs") auto
  also have "\<dots> \<longleftrightarrow> \<not> (\<forall>f \<in> set expected_files.
                              \<exists>content. lookup_file fs rd f = Some content \<and> content \<noteq> [])"
    by (simp add: check_for_run_failures_def check_files_Inr)
  also have "\<dots> \<longleftrightarrow> (\<exists>f \<in> set expected_files. lookup_file fs rd f = None \<or> lookup_file fs rd f = Some [])"
  proof -
    have "(\<not> (\<exists>content. x = Some content \<and> content \<noteq> [])) \<longleftrightarrow> (x = None \<or> x = Some [])"
      for x :: "string option"
      by (cases x) auto
    then show ?thesis by simp
  qed
  finally show ?thesis .
qed

lemma run_and_check_Inr:
  assumes "run_and_check r rd st1 = (Inr u, cro, st2)"
  shows "\<exists>cr fs'. subprocess_run (env r) rd (files st1) = Inr (cr, fs') \<and> returncode cr = 0
           \<and> st2 = st1\<lparr>files := fs'\<rparr> \<and> cro = Some cr \<and> check_for_run_failures rd fs' = Inr ()"
  using assms
  by (auto simp: run_and_check_def scm_runner_def split: sum.splits prod.splits if_splits)

lemma run_openifs_scm_Inr:
  assumes "run_openifs_scm r c rd st1 = (Inr u, st2)"
  shows "\<exists>cro. run_and_check r rd st1 = (Inr (), cro, st2)"
  using assms
  by (auto simp: run_openifs_scm_def split: sum.splits prod.splits if_splits)

lemma run_cell_body_Inr:
  assumes "run_cell_body r c st = (Inr paths, rdo, st3)"
  shows "\<exists>rd st1 st2. rdo = Some rd \<and> setup_openifs_scm r c st = (Inr rd, st1)
           \<and> run_openifs_scm r c rd st1 = (Inr (), st2)
           \<and> archive_results r c rd st2 = (Inr paths, st3)"
  using assms
  by (auto simp: run_cell_body_def split: sum.splits prod.splits)

lemma run_cell_success:
  assumes "run_cell r c st = (Inr res, st')" and "outputs res = Some paths"
  shows "\<exists>rdo st3. run_cell_body r c st = (Inr paths, rdo, st3)
           \<and> run_cell_finally r (Some True) rdo (run_log_add (InfoCompleted c) st3) = (Inr (), st')
           \<and> res = \<lparr>result_cell = c, outputs = Some paths\<rparr>"
  using assms
  by (auto simp: run_cell_def split: sum.splits prod.splits if_splits)

lemma run_and_check_nonzero:
  assumes "subprocess_run (env r) rd (files st1) = Inr (cr, fs')" and "returncode cr \<noteq> 0"
  shows "run_and_check r rd st1 = (Inl (NameError ''exit_code''), Some cr, st1\<lparr>files := fs'\<rparr>)"
  using assms by (simp add: run_and_check_def scm_runner_def)

lemma run_and_check_zero:
  assumes "subprocess_run (env r) rd (files st1) = Inr (cr, fs')" and "returncode cr = 0"
  shows "run_and_check r rd st1 = (check_for_run_failures rd fs', Some cr, st1\<lparr>files := fs'\<rparr>)"
  using assms by (simp add: run_and_check_def scm_runner_def)

lemma run_cell_not_caught:
  assumes "setup_openifs_scm r c st = (Inr rd, st1)"
    and "run_and_check r rd st1 = (Inl e, cro, st2)"
    and "\<not> is_TileRunError e"
  shows "run_cell r c st = (Inl (UnboundLocalError ''run_successful''), st2)"
proof -
  have "\<not> is_SCMError e" using assms(3) by (cases e) auto
  then have "run_openifs_scm r c rd st1 = (Inl e, st2)"
    using assms(2) by (simp add: run_openifs_scm_def)
  then show ?thesis
    using assms(1,3) by (simp add: run_cell_def run_cell_body_def run_cell_finally_def)
qed

lemma run_cell_success_path:
  assumes "setup_openifs_scm r c st = (Inr rd, st1)"
    and "run_and_check r rd st1 = (Inr (), cro, st2)"
    and "archive_results r c rd st2 = (Inr paths, st3)"
    and "files st3 rd = Some d"
  shows "run_cell r c st
           = (Inr \<lparr>result_cell = c, outputs = Some paths\<rparr>,
              st3\<lparr>files := (files st3)(rd := None), run_log := run_log st3 @ [InfoCompleted c]\<rparr>)"
  using assms
  by (simp add: run_cell_def run_cell_body_def run_openifs_scm_def run_cell_finally_def
      rmtree_def run_log_add_def)

lemma run_cell_archive_failure_kept:
  assumes "setup_openifs_scm r c st = (Inr rd, st1)"
    and "run_openifs_scm r c rd st1 = (Inr (), st2)"
    and "archive_results r c rd st2 = (Inl e, st3)"
    and "is_TileRunError e"
    and "archive_failed_runs r"
  shows "run_cell r c st
           = (Inr \<lparr>result_cell = c, outputs = None\<rparr>,
              st3\<lparr>run_log := run_log st3 @ [ErrorFailed c e]\<rparr>)"
  using assms
  by (simp add: run_cell_def run_cell_body_def run_cell_finally_def run_log_add_def)

lemma run_cell_deletes:
  assumes "setup_openifs_scm r c st = (Inr rd, st1)"
    and "run_cell r c st = (Inr res, st')"
    and "outputs res \<noteq> None \<or> \<not> archive_failed_runs r"
  shows "files st' rd = None"
  using assms
  by (auto simp: run_cell_def run_cell_body_def run_cell_finally_def rmtree_def
      split: sum.splits prod.splits if_splits option.splits)





lemma ex_runner_simps:
  "env (ex_runner k e) = e" "runner_config (ex_runner k e) = ex_config"
  "archive_failed_runs (ex_runner k e) = k"
  by (simp_all add: ex_runner_def)

lemma ex_env_simps:
  "subprocess_run (ex_env p m) = p" "move_raises (ex_env p m) = (\<lambda>src dst fs. m)"
  by (simp_all add: ex_env_def)

lemma ex_setup:
  "setup_openifs_scm (ex_runner k (ex_env p m)) c ex_state
     = (Inr ''/work/run'', \<lparr>files = ex_staged, run_log = []\<rparr>)"
  by (simp add: setup_openifs_scm_def write_scm_input_def ex_runner_def ex_env_def ex_state_def
      write_file_def ex_staged_def ex_run_dir_def)

lemma ex_process:
  "model_process code outs ''/work/run'' ex_staged
     = Inr (\<lparr>returncode = code, stdout = ''out'', stderr = ''err''\<rparr>,
            ex_staged(''/work/run'' \<mapsto> ex_run_dir ++ map_of outs))"
  by (simp add: model_process_def ex_staged_def)

lemma ex_check_good:
  "check_for_run_failures ''/work/run'' (ex_staged(''/work/run'' \<mapsto> ex_run_dir ++ map_of good_output))
     = Inr ()"
  by (simp add: check_for_run_failures_def expected_files_def lookup_file_def good_output_def)

lemma ex_check_missing:
  "check_for_run_failures ''/work/run''
     (ex_staged(''/work/run'' \<mapsto> ex_run_dir ++ map_of (tl good_output)))
     = Inl (SCMError (MissingOrEmpty ''/work/run/onecol.r''))"
  by (simp add: check_for_run_failures_def expected_files_def lookup_file_def good_output_def
      ex_run_dir_def pjoin_def)

lemma target_names_ex:
  "target_name (ex_runner k e) ex_cell ''diagvar.nc'' = ''diagvar.20090406_010000.y0012x0003.nc''"
  "target_name (ex_runner k e) ex_cell ''diagvar2.nc'' = ''diagvar2.20090406_010000.y0012x0003.nc''"
  "target_name (ex_runner k e) ex_cell ''progvar.nc'' = ''progvar.20090406_010000.y0012x0003.nc''"
  by (simp_all add: target_name_def splitext_def ex_runner_simps date_id_ex_config cell_id_ex_cell)

lemma ex_archive_ok:
  "fst (archive_results (ex_runner k (ex_env p None)) ex_cell ''/work/run''
          \<lparr>files = ex_staged(''/work/run'' \<mapsto> ex_run_dir ++ map_of good_output), run_log = []\<rparr>)
     = Inr [''/out/diagvar.20090406_010000.y0012x0003.nc'',
            ''/out/diagvar2.20090406_010000.y0012x0003.nc'',
            ''/out/progvar.20090406_010000.y0012x0003.nc'']"
  by (simp add: archive_results_def archive_files_def Let_def shutil_move_file_def
      ex_runner_simps ex_env_simps target_names_ex ex_out pjoin_def ex_staged_def good_output_def
      split: prod.splits)

lemma move_file_effect:
  assumes "shutil_move_file e d f out name fs = Inr fs'" and "d \<noteq> out"
  shows "lookup_file fs d f \<noteq> None"
    and "lookup_file fs' d g = (if g = f then None else lookup_file fs d g)"
    and "lookup_file fs' out n = (if n = name then lookup_file fs d f else lookup_file fs out n)"
  using assms
  by (auto simp: shutil_move_file_def lookup_file_def Let_def split: option.splits if_splits)

lemma target_name_simps:
  "target_name r c ''diagvar.nc''
     = ''diagvar.'' @ date_id (start_time (runner_config r)) @ ''.'' @ cell_id c @ ''.nc''"
  "target_name r c ''diagvar2.nc''
     = ''diagvar2.'' @ date_id (start_time (runner_config r)) @ ''.'' @ cell_id c @ ''.nc''"
  "target_name r c ''progvar.nc''
     = ''progvar.'' @ date_id (start_time (runner_config r)) @ ''.'' @ cell_id c @ ''.nc''"
  by (simp_all add: target_name_def splitext_def)

lemma archive_results_Inr:
  assumes "archive_results r c rd st = (Inr archived, st')"
  shows "\<exists>fs1 fs2.
           shutil_move_file (env r) rd ''diagvar.nc'' (output_directory (runner_config r))
             (target_name r c ''diagvar.nc'') (files st) = Inr fs1
         \<and> shutil_move_file (env r) rd ''diagvar2.nc'' (output_directory (runner_config r))
             (target_name r c ''diagvar2.nc'') fs1 = Inr fs2
         \<and> shutil_move_file (env r) rd ''progvar.nc'' (output_directory (runner_config r))
             (target_name r c ''progvar.nc'') fs2 = Inr (files st')
         \<and> archived = map (\<lambda>af. pjoin (output_directory (runner_config r)) (target_name r c af))
                         archive_files"
  using assms
  by (auto simp: archive_results_def archive_files_def Let_def split: sum.splits if_splits prod.splits)

lemma archive_results_effect:
  assumes a: "archive_results r c rd st = (Inr archived, st')"
    and ne: "rd \<noteq> output_directory (runner_config r)"
  shows "(\<forall>af \<in> set archive_files.
            lookup_file (files st) rd af \<noteq> None
          \<and> lookup_file (files st') rd af = None
          \<and> lookup_file (files st') (output_directory (runner_config r)) (target_name r c af)
              = lookup_file (files st) rd af)
       \<and> (\<forall>f. f \<notin> set archive_files \<longrightarrow> lookup_file (files st') rd f = lookup_file (files st) rd f)
       \<and> (\<forall>n. n \<notin> target_name r c ` set archive_files
              \<longrightarrow> lookup_file (files st') (output_directory (runner_config r)) n
                    = lookup_file (files st) (output_directory (runner_config r)) n)"
proof -
  from archive_results_Inr [OF a] obtain fs1 fs2 where
    m1: "shutil_move_file (env r) rd ''diagvar.nc'' (output_directory (runner_config r))
             (target_name r c ''diagvar.nc'') (files st) = Inr fs1"
    and m2: "shutil_move_file (env r) rd ''diagvar2.nc'' (output_directory (runner_config r))
             (target_name r c ''diagvar2.nc'') fs1 = Inr fs2"
    and m3: "shutil_move_file (env r) rd ''progvar.nc'' (output_directory (runner_config r))
             (target_name r c ''progvar.nc'') fs2 = Inr (files st')"
    by blast
  note e1 = move_file_effect [OF m1 ne]
  note e2 = move_file_effect [OF m2 ne]
  note e3 = move_file_effect [OF m3 ne]
  have s1: "lookup_file (files st) rd ''diagvar.nc'' \<noteq> None" using e1(1) .
  have s2: "lookup_file (files st) rd ''diagvar2.nc'' \<noteq> None" using e2(1) by (simp add: e1(2))
  have s3: "lookup_file (files st) rd ''progvar.nc'' \<noteq> None" using e3(1) by (simp add: e2(2) e1(2))
  show ?thesis
    using s1 s2 s3
    by (simp add: archive_files_def e3(2,3) e2(2,3) e1(2,3) target_name_simps)
qed


lemma ex_run_and_check_good:
  "run_and_check (ex_runner k (ex_env (model_process 0 good_output) m)) ''/work/run''
       \<lparr>files = ex_staged, run_log = []\<rparr>
     = (Inr (), Some \<lparr>returncode = 0, stdout = ''out'', stderr = ''err''\<rparr>,
        \<lparr>files = ex_staged(''/work/run'' \<mapsto> ex_run_dir ++ map_of good_output), run_log = []\<rparr>)"
proof -
  have "subprocess_run (env (ex_runner k (ex_env (model_process 0 good_output) m))) ''/work/run''
          (files \<lparr>files = ex_staged, run_log = []\<rparr>)
          = Inr (\<lparr>returncode = 0, stdout = ''out'', stderr = ''err''\<rparr>,
                 ex_staged(''/work/run'' \<mapsto> ex_run_dir ++ map_of good_output))"
    by (simp add: ex_runner_simps ex_env_simps ex_process)
  from run_and_check_zero [OF this] show ?thesis by (simp add: ex_check_good)
qed

lemma lookup_file_dir:
  assumes "lookup_file fs d f = Some x"
  shows "\<exists>dir. fs d = Some dir"
  using assms by (auto simp: lookup_file_def split: option.splits)

lemma ex_run_ok:
  "\<exists>st'. run_cell (ex_runner k (ex_env (model_process 0 good_output) None)) ex_cell ex_state
           = (Inr \<lparr>result_cell = ex_cell,
                   outputs = Some [''/out/diagvar.20090406_010000.y0012x0003.nc'',
                                   ''/out/diagvar2.20090406_010000.y0012x0003.nc'',
                                   ''/out/progvar.20090406_010000.y0012x0003.nc'']\<rparr>, st')"
proof -
  let ?r = "ex_runner k (ex_env (model_process 0 good_output) None)"
  let ?st2 = "\<lparr>files = ex_staged(''/work/run'' \<mapsto> ex_run_dir ++ map_of good_output), run_log = []\<rparr>"
  let ?paths = "[''/out/diagvar.20090406_010000.y0012x0003.nc'',
                 ''/out/diagvar2.20090406_010000.y0012x0003.nc'',
                 ''/out/progvar.20090406_010000.y0012x0003.nc'']"
  obtain r3 st3 where a: "archive_results ?r ex_cell ''/work/run'' ?st2 = (r3, st3)"
    by (cases "archive_results ?r ex_cell ''/work/run'' ?st2") auto
  with ex_archive_ok [of k "model_process 0 good_output"] have r3: "r3 = Inr ?paths" by simp
  have ne: "''/work/run'' \<noteq> output_directory (runner_config ?r)"
    by (simp add: ex_runner_simps ex_out)
  have n: "''onecol.r'' \<notin> set archive_files" by (simp add: archive_files_def)
  have "lookup_file (files st3) ''/work/run'' ''onecol.r'' = lookup_file (files ?st2) ''/work/run'' ''onecol.r''"
    by (rule archive_results_effect [OF a [unfolded r3] ne, THEN conjunct2, THEN conjunct1,
          rule_format, OF n])
  also have "\<dots> = Some ''r''" by (simp add: lookup_file_def good_output_def)
  finally have l: "lookup_file (files st3) ''/work/run'' ''onecol.r'' = Some ''r''" .
  from lookup_file_dir [OF l] obtain d where d: "files st3 ''/work/run'' = Some d" ..
  from run_cell_success_path [OF ex_setup ex_run_and_check_good a [unfolded r3] d]
  show ?thesis by blast
qed

subsection \<open>Verification and success\<close>

text \<open>
  C8. \<open>check_for_run_failures\<close> raises if and only if one of the four expected files
  \<^verbatim>\<open>onecol.r\<close>, \<^verbatim>\<open>progvar.nc\<close>, \<^verbatim>\<open>diagvar.nc\<close>, \<^verbatim>\<open>diagvar2.nc\<close> is missing from the run
  directory or empty, and what it raises is the \<open>SCMError\<close> that names such a file. A
  cell run gives a result with outputs only when the model process completed with
  return code 0 and left all four files in the run directory, none of them empty.
\<close>

theorem verification_and_success:
  "((\<exists>e. check_for_run_failures rd fs = Inl e)
      \<longleftrightarrow> (\<exists>f \<in> set expected_files. lookup_file fs rd f = None \<or> lookup_file fs rd f = Some []))
   \<and> (\<forall>e. check_for_run_failures rd fs = Inl e
          \<longrightarrow> (\<exists>f \<in> set expected_files. e = SCMError (MissingOrEmpty (pjoin rd f))))
   \<and> expected_files = [''onecol.r'', ''progvar.nc'', ''diagvar.nc'', ''diagvar2.nc'']
   \<and> (\<forall>res paths st'.
         run_cell r c st = (Inr res, st') \<and> outputs res = Some paths
         \<longrightarrow> (\<exists>run_directory st1 command_result fs'.
                setup_openifs_scm r c st = (Inr run_directory, st1)
              \<and> subprocess_run (env r) run_directory (files st1) = Inr (command_result, fs')
              \<and> returncode command_result = 0
              \<and> (\<forall>f \<in> set expected_files.
                    \<exists>content. lookup_file fs' run_directory f = Some content \<and> content \<noteq> [])))"
proof -
  have a: "\<forall>e. check_for_run_failures rd fs = Inl e
             \<longrightarrow> (\<exists>f \<in> set expected_files. e = SCMError (MissingOrEmpty (pjoin rd f)))"
    using check_files_Inl [of rd fs expected_files] by (auto simp: check_for_run_failures_def)
  have b: "\<exists>run_directory st1 command_result fs'.
                setup_openifs_scm r c st = (Inr run_directory, st1)
              \<and> subprocess_run (env r) run_directory (files st1) = Inr (command_result, fs')
              \<and> returncode command_result = 0
              \<and> (\<forall>f \<in> set expected_files.
                    \<exists>content. lookup_file fs' run_directory f = Some content \<and> content \<noteq> [])"
    if ok: "run_cell r c st = (Inr res, st')" "outputs res = Some paths" for res paths st'
  proof -
    from run_cell_success [OF ok] obtain rdo st3 where "run_cell_body r c st = (Inr paths, rdo, st3)"
      by blast
    from run_cell_body_Inr [OF this] obtain rd st1 st2 where
      s: "setup_openifs_scm r c st = (Inr rd, st1)" and "run_openifs_scm r c rd st1 = (Inr (), st2)"
      by blast
    from run_openifs_scm_Inr [OF this(2)] obtain cro where "run_and_check r rd st1 = (Inr (), cro, st2)"
      by blast
    from run_and_check_Inr [OF this] obtain cr fs' where
      p: "subprocess_run (env r) rd (files st1) = Inr (cr, fs')" "returncode cr = 0"
      and "check_for_run_failures rd fs' = Inr ()"
      by blast
    then have "\<forall>f \<in> set expected_files. \<exists>content. lookup_file fs' rd f = Some content \<and> content \<noteq> []"
      by (simp add: check_for_run_failures_def check_files_Inr)
    with s p show ?thesis by blast
  qed
  show ?thesis
    using check_for_run_failures_cases [of rd fs] a b
    by (simp add: expected_files_def)
qed

text \<open>
  The witness: a run directory without \<^verbatim>\<open>onecol.r\<close> fails the check, with an error that
  names the file; and when the example model process ends with return code 0 and writes
  the four files, the run gives a result with outputs.
\<close>

theorem verification_and_success_witness:
  "(\<exists>e. check_for_run_failures ''/work/run''
          (ex_staged(''/work/run'' \<mapsto> ex_run_dir ++ map_of (tl good_output))) = Inl e
       \<and> (\<exists>f \<in> set expected_files. e = SCMError (MissingOrEmpty (pjoin ''/work/run'' f))))
   \<and> (\<exists>res st'. run_cell (ex_runner False (ex_env (model_process 0 good_output) None)) ex_cell ex_state
               = (Inr res, st')
     \<and> outputs res = Some [''/out/diagvar.20090406_010000.y0012x0003.nc'',
                            ''/out/diagvar2.20090406_010000.y0012x0003.nc'',
                            ''/out/progvar.20090406_010000.y0012x0003.nc'']
     \<and> (\<exists>run_directory st1 command_result fs'.
           setup_openifs_scm (ex_runner False (ex_env (model_process 0 good_output) None)) ex_cell ex_state
             = (Inr run_directory, st1)
         \<and> subprocess_run (env (ex_runner False (ex_env (model_process 0 good_output) None)))
             run_directory (files st1) = Inr (command_result, fs')
         \<and> returncode command_result = 0
         \<and> (\<exists>content. lookup_file fs' run_directory ''onecol.r'' = Some content \<and> content \<noteq> [])))"
proof -
  let ?r = "ex_runner False (ex_env (model_process 0 good_output) None)"
  let ?paths = "[''/out/diagvar.20090406_010000.y0012x0003.nc'',
                 ''/out/diagvar2.20090406_010000.y0012x0003.nc'',
                 ''/out/progvar.20090406_010000.y0012x0003.nc'']"
  let ?bad = "ex_staged(''/work/run'' \<mapsto> ex_run_dir ++ map_of (tl good_output))"
  note v0 = verification_and_success [of "''/work/run''" ?bad ?r ex_cell ex_state]
  have "check_for_run_failures ''/work/run'' ?bad = Inl (SCMError (MissingOrEmpty ''/work/run/onecol.r''))"
    by (rule ex_check_missing)
  with v0 [THEN conjunct2, THEN conjunct1, rule_format, OF this]
  have part1: "\<exists>e. check_for_run_failures ''/work/run'' ?bad = Inl e
       \<and> (\<exists>f \<in> set expected_files. e = SCMError (MissingOrEmpty (pjoin ''/work/run'' f)))"
    by (intro exI conjI)
  from ex_run_ok [of False] obtain st' where
    run: "run_cell ?r ex_cell ex_state = (Inr \<lparr>result_cell = ex_cell, outputs = Some ?paths\<rparr>, st')"
    by blast
  then have h: "run_cell ?r ex_cell ex_state = (Inr \<lparr>result_cell = ex_cell, outputs = Some ?paths\<rparr>, st')
                \<and> outputs \<lparr>result_cell = ex_cell, outputs = Some ?paths\<rparr> = Some ?paths"
    by simp
  note v = v0 [THEN conjunct2, THEN conjunct2, THEN conjunct2, rule_format, OF h]
  then obtain run_directory st1 command_result fs' where
    s: "setup_openifs_scm ?r ex_cell ex_state = (Inr run_directory, st1)"
    and p: "subprocess_run (env ?r) run_directory (files st1) = Inr (command_result, fs')"
    and z: "returncode command_result = 0"
    and f: "\<forall>f \<in> set expected_files.
              \<exists>content. lookup_file fs' run_directory f = Some content \<and> content \<noteq> []"
    by blast
  have "''onecol.r'' \<in> set expected_files" by (simp add: expected_files_def)
  with f have "\<exists>content. lookup_file fs' run_directory ''onecol.r'' = Some content \<and> content \<noteq> []"
    by blast
  with s p z have "\<exists>run_directory st1 command_result fs'.
           setup_openifs_scm ?r ex_cell ex_state = (Inr run_directory, st1)
         \<and> subprocess_run (env ?r) run_directory (files st1) = Inr (command_result, fs')
         \<and> returncode command_result = 0
         \<and> (\<exists>content. lookup_file fs' run_directory ''onecol.r'' = Some content \<and> content \<noteq> [])"
    by blast
  with h have part2: "\<exists>res st'. run_cell ?r ex_cell ex_state = (Inr res, st')
     \<and> outputs res = Some ?paths
     \<and> (\<exists>run_directory st1 command_result fs'.
           setup_openifs_scm ?r ex_cell ex_state = (Inr run_directory, st1)
         \<and> subprocess_run (env ?r) run_directory (files st1) = Inr (command_result, fs')
         \<and> returncode command_result = 0
         \<and> (\<exists>content. lookup_file fs' run_directory ''onecol.r'' = Some content \<and> content \<noteq> []))"
    by blast
  from part1 part2 show ?thesis by (rule conjI)
qed

subsection \<open>What is archived\<close>







subsection \<open>A non-zero exit status\<close>

text \<open>
  C1 (the code departs from the claim). When staging succeeds and the model process
  completes with a non-zero return code, \<open>run_cell\<close> does not return a result: building
  the \<open>SCMError\<close> reads the unbound name \<^verbatim>\<open>exit_code\<close>, the \<^verbatim>\<open>NameError\<close> passes both
  handlers, and the \<^verbatim>\<open>finally\<close> block raises \<^verbatim>\<open>UnboundLocalError\<close> on
  \<open>run_successful\<close>, which leaves \<open>run_cell\<close>. Nothing is logged, and the run directory is
  neither deleted nor archived.
\<close>

theorem run_cell_nonzero_exit_raises:
  assumes "setup_openifs_scm r c st = (Inr rd, st1)"
    and "subprocess_run (env r) rd (files st1) = Inr (cr, fs')"
    and "returncode cr \<noteq> 0"
  shows "run_cell r c st = (Inl (UnboundLocalError ''run_successful''), st1\<lparr>files := fs'\<rparr>)"
  using run_cell_not_caught [OF assms(1) run_and_check_nonzero [OF assms(2,3)]] by simp

text \<open>The witness: the example model process ends with return code 3.\<close>

theorem run_cell_nonzero_exit_raises_witness:
  "returncode \<lparr>returncode = 3, stdout = ''out'', stderr = ''err''\<rparr> \<noteq> 0
   \<and> run_cell (ex_runner False (ex_env (model_process 3 good_output) None)) ex_cell ex_state
       = (Inl (UnboundLocalError ''run_successful''),
          \<lparr>files = ex_staged(''/work/run'' \<mapsto> ex_run_dir ++ map_of good_output), run_log = []\<rparr>)"
proof -
  let ?r = "ex_runner False (ex_env (model_process 3 good_output) None)"
  have p: "subprocess_run (env ?r) ''/work/run'' (files \<lparr>files = ex_staged, run_log = []\<rparr>)
             = Inr (\<lparr>returncode = 3, stdout = ''out'', stderr = ''err''\<rparr>,
                    ex_staged(''/work/run'' \<mapsto> ex_run_dir ++ map_of good_output))"
    by (simp add: ex_runner_simps ex_env_simps ex_process)
  have n: "returncode \<lparr>returncode = 3, stdout = ''out'', stderr = ''err''\<rparr> \<noteq> 0" by simp
  show ?thesis
    using run_cell_nonzero_exit_raises [OF ex_setup p n] n by simp
qed

subsection \<open>The cleanup policy\<close>

lemma move_file_keeps:
  assumes "shutil_move_file e d f out name fs = Inr fs'"
  shows "(fs d' \<noteq> None \<longrightarrow> fs' d' \<noteq> None) \<and> (d' \<noteq> d \<and> d' \<noteq> out \<longrightarrow> fs' d' = fs d')"
  using assms
  by (auto simp: shutil_move_file_def Let_def split: option.splits if_splits)

lemma archive_loop_keeps:
  assumes "archive_loop r c rd l acc fs = (res, fs')"
  shows "(fs d' \<noteq> None \<longrightarrow> fs' d' \<noteq> None)
       \<and> (d' \<noteq> rd \<and> d' \<noteq> output_directory (runner_config r) \<longrightarrow> fs' d' = fs d')"
  using assms
proof (induction l arbitrary: acc fs)
  case Nil
  then show ?case by simp
next
  case (Cons af rest)
  show ?case
  proof (cases "shutil_move_file (env r) rd af (output_directory (runner_config r))
                  (target_name r c af) fs")
    case (Inl e)
    with Cons.prems have "fs' = fs" by (auto simp: Let_def split: if_splits)
    then show ?thesis by simp
  next
    case (Inr fs1)
    with Cons.prems have
      "archive_loop r c rd rest
         (acc @ [pjoin (output_directory (runner_config r)) (target_name r c af)]) fs1 = (res, fs')"
      by (simp add: Let_def)
    from Cons.IH [OF this] move_file_keeps [OF Inr, of d'] show ?thesis by auto
  qed
qed

lemma archive_results_keeps:
  assumes "archive_results r c rd st = (res, st')"
  shows "(files st d' \<noteq> None \<longrightarrow> files st' d' \<noteq> None)
       \<and> (d' \<noteq> rd \<and> d' \<noteq> output_directory (runner_config r) \<longrightarrow> files st' d' = files st d')"
proof -
  obtain res' fs' where l: "archive_loop r c rd archive_files [] (files st) = (res', fs')"
    by (cases "archive_loop r c rd archive_files [] (files st)") auto
  with assms have "files st' = fs'" by (auto simp: archive_results_def)
  with archive_loop_keeps [OF l, of d'] show ?thesis by simp
qed

lemma archive_directory_not_output:
  "archive_directory r c \<noteq> output_directory (runner_config r)"
proof
  assume "archive_directory r c = output_directory (runner_config r)"
  then have "length (archive_directory r c) = length (output_directory (runner_config r))"
    by simp
  then show False by (simp add: archive_directory_def pjoin_def split: if_splits)
qed

text \<open>
  Two more ways in which a failed run keeps its run directory where it is. When staging
  fails after the run directory has been made, \<open>run_directory\<close> is unbound in the
  \<^verbatim>\<open>finally\<close> block, the \<^verbatim>\<open>UnboundLocalError\<close> is passed over and the directory is neither
  deleted nor archived, whether failed runs are kept or not. And when the move to the
  archive directory raises something else than \<^verbatim>\<open>PermissionError\<close> and
  \<^verbatim>\<open>FileNotFoundError\<close> (\<^verbatim>\<open>shutil.Error\<close>, when the archive directory is there already and
  holds a directory of the run directory's name), the exception leaves \<open>run_cell\<close> as an
  \<^verbatim>\<open>UnboundLocalError\<close> on \<open>run_successful\<close>.
\<close>

lemma staging_failure_leaves_directory:
  assumes "create_run_directory (env r) (files st) = Inr (rd, fs1)"
    and "link_template (env r) rd fs1 = Inl e"
    and "is_TileRunError e"
  shows "run_cell r c st
           = (Inr \<lparr>result_cell = c, outputs = None\<rparr>,
              st\<lparr>files := fs1, run_log := run_log st @ [ErrorFailed c e]\<rparr>)"
  using assms
  by (simp add: run_cell_def run_cell_body_def setup_openifs_scm_def run_cell_finally_def
      run_log_add_def)

lemma relocation_failure_escalates:
  assumes "setup_openifs_scm r c st = (Inr rd, st1)"
    and "run_and_check r rd st1 = (Inl e, cro, st2)"
    and "is_SCMError e"
    and "archive_failed_runs r"
    and "dump_output rd cro (files st2) = Inr fs1"
    and "shutil_move_dir (env r) rd (archive_directory r c) fs1 = Inl ShutilError"
  shows "run_cell r c st = (Inl (UnboundLocalError ''run_successful''), st2\<lparr>files := fs1\<rparr>)"
proof -
  have "run_openifs_scm r c rd st1 = (Inl ShutilError, st2\<lparr>files := fs1\<rparr>)"
    using assms(2-6) by (simp add: run_openifs_scm_def archive_failed_run_def)
  then show ?thesis
    using assms(1) by (simp add: run_cell_def run_cell_body_def run_cell_finally_def)
qed

text \<open>
  C7 (the code departs from the claim). The docstring of \<open>archive_failed_runs\<close> says that,
  when it is set, any run that fails has its entire run directory archived in the output
  directory as \<^verbatim>\<open>failed.YYYYMMDD_HHMMSS.yNNNNxMMMM\<close>, and so does the claim for a failure at
  any stage after staging. The relocation is in the handler of \<open>run_openifs_scm\<close> only.
  When the model has run and verified and \<open>archive_results\<close> then fails with an
  \<open>SCMError\<close>, no handler relocates anything and the \<^verbatim>\<open>finally\<close> block of \<open>run_cell\<close>
  skips the deletion: \<open>run_cell\<close> gives a result without outputs and leaves the files as
  \<open>archive_results\<close> left them. The run directory, if it was there, is still there, and
  the archive directory is as it was before the archiving step: nothing is relocated.
\<close>

theorem cleanup_policy_archive_failure:
  assumes staged: "setup_openifs_scm r c st = (Inr rd, st1)"
    and ran: "run_openifs_scm r c rd st1 = (Inr (), st2)"
    and arch: "archive_results r c rd st2 = (Inl e, st3)"
    and scm: "is_SCMError e"
    and keep: "archive_failed_runs r"
  shows "run_cell r c st
           = (Inr \<lparr>result_cell = c, outputs = None\<rparr>,
              st3\<lparr>run_log := run_log st3 @ [ErrorFailed c e]\<rparr>)
       \<and> (files st2 rd \<noteq> None \<longrightarrow> files st3 rd \<noteq> None)
       \<and> (archive_directory r c \<noteq> rd
            \<longrightarrow> files st3 (archive_directory r c) = files st2 (archive_directory r c))"
proof -
  have t: "is_TileRunError e" using scm by (cases e) auto
  have a: "run_cell r c st
             = (Inr \<lparr>result_cell = c, outputs = None\<rparr>,
                st3\<lparr>run_log := run_log st3 @ [ErrorFailed c e]\<rparr>)"
    by (rule run_cell_archive_failure_kept [OF staged ran arch t keep])
  note k = archive_results_keeps [OF arch]
  have b: "files st2 rd \<noteq> None \<longrightarrow> files st3 rd \<noteq> None"
    using k [of rd] by simp
  have c: "archive_directory r c \<noteq> rd
             \<longrightarrow> files st3 (archive_directory r c) = files st2 (archive_directory r c)"
    using k [of "archive_directory r c"] archive_directory_not_output [of r c] by simp
  from a b c show ?thesis by (intro conjI)
qed

lemma ex_env_stale_simps:
  "create_run_directory (ex_env_stale p) = create_run_directory (ex_env p None)"
  "link_template (ex_env_stale p) = link_template (ex_env p None)"
  "get_cell (ex_env_stale p) = get_cell (ex_env p None)"
  "subprocess_run (ex_env_stale p) = p"
  "move_raises (ex_env_stale p) src dst fs
     = (if dst = ''/out/diagvar.20090406_010000.y0012x0003.nc'' then Some PermissionError else None)"
  by (simp_all add: ex_env_stale_def ex_env_def)

lemma ex_setup_stale:
  "setup_openifs_scm (ex_runner k (ex_env_stale p)) c ex_state
     = (Inr ''/work/run'', \<lparr>files = ex_staged, run_log = []\<rparr>)"
  by (simp add: setup_openifs_scm_def write_scm_input_def ex_runner_def ex_env_stale_simps
      ex_env_def ex_state_def write_file_def ex_staged_def ex_run_dir_def)

text \<open>
  The witness: failed runs are kept, the model process ends with return code 0 and writes
  the four files, and the move of the first output file is refused. The run gives a
  result without outputs. Afterwards the run directory is in place with the files the
  model wrote, the output of the process has not been written to it, and there is no
  archive directory, although the move of the run directory to the archive directory is
  not refused.
\<close>

theorem cleanup_policy_archive_failure_witness:
  "archive_failed_runs (ex_runner True (ex_env_stale (model_process 0 good_output)))
   \<and> run_cell (ex_runner True (ex_env_stale (model_process 0 good_output))) ex_cell ex_state
       = (Inr \<lparr>result_cell = ex_cell, outputs = None\<rparr>,
          \<lparr>files = ex_staged(''/work/run'' \<mapsto> ex_run_dir ++ map_of good_output),
             run_log = [ErrorFailed ex_cell (SCMError (ArchivePermissionDenied ''/out''))]\<rparr>)
   \<and> lookup_file (ex_staged(''/work/run'' \<mapsto> ex_run_dir ++ map_of good_output))
        ''/work/run'' ''diagvar.nc'' = Some ''d''
   \<and> lookup_file (ex_staged(''/work/run'' \<mapsto> ex_run_dir ++ map_of good_output))
        ''/work/run'' ''stdout.txt'' = None
   \<and> (ex_staged(''/work/run'' \<mapsto> ex_run_dir ++ map_of good_output))
        ''/out/failed.20090406_010000.y0012x0003'' = None
   \<and> shutil_move_dir (env (ex_runner True (ex_env_stale (model_process 0 good_output))))
        ''/work/run'' ''/out/failed.20090406_010000.y0012x0003''
        (ex_staged(''/work/run'' \<mapsto> ex_run_dir ++ map_of good_output))
       = Inr [''/out'' \<mapsto> Map.empty,
              ''/out/failed.20090406_010000.y0012x0003'' \<mapsto> ex_run_dir ++ map_of good_output]"
proof -
  let ?r = "ex_runner True (ex_env_stale (model_process 0 good_output))"
  let ?fs = "ex_staged(''/work/run'' \<mapsto> ex_run_dir ++ map_of good_output)"
  let ?st2 = "\<lparr>files = ?fs, run_log = []\<rparr>"
  let ?e = "SCMError (ArchivePermissionDenied ''/out'')"
  have keep: "archive_failed_runs ?r" by (simp add: ex_runner_simps)
  have proc: "subprocess_run (env ?r) ''/work/run'' (files \<lparr>files = ex_staged, run_log = []\<rparr>)
                = Inr (\<lparr>returncode = 0, stdout = ''out'', stderr = ''err''\<rparr>, ?fs)"
    by (simp add: ex_runner_simps ex_env_stale_simps ex_process)
  have "run_and_check ?r ''/work/run'' \<lparr>files = ex_staged, run_log = []\<rparr>
          = (Inr (), Some \<lparr>returncode = 0, stdout = ''out'', stderr = ''err''\<rparr>, ?st2)"
    using run_and_check_zero [OF proc] by (simp add: ex_check_good)
  then have ran: "run_openifs_scm ?r ex_cell ''/work/run'' \<lparr>files = ex_staged, run_log = []\<rparr>
                    = (Inr (), ?st2)"
    by (simp add: run_openifs_scm_def)
  have arch: "archive_results ?r ex_cell ''/work/run'' ?st2 = (Inl ?e, ?st2)"
    by (simp add: archive_results_def archive_files_def Let_def shutil_move_file_def
        ex_runner_simps ex_env_stale_simps ex_out target_names_ex pjoin_def)
  have scm: "is_SCMError ?e" by simp
  from cleanup_policy_archive_failure [OF ex_setup_stale ran arch scm keep]
  have run: "run_cell ?r ex_cell ex_state
               = (Inr \<lparr>result_cell = ex_cell, outputs = None\<rparr>,
                  \<lparr>files = ?fs, run_log = [ErrorFailed ex_cell ?e]\<rparr>)"
    by simp
  have l1: "lookup_file ?fs ''/work/run'' ''diagvar.nc'' = Some ''d''"
    and l2: "lookup_file ?fs ''/work/run'' ''stdout.txt'' = None"
    by (simp_all add: lookup_file_def good_output_def ex_run_dir_def)
  have l3: "?fs ''/out/failed.20090406_010000.y0012x0003'' = None"
    by (simp add: ex_staged_def)
  have mv: "shutil_move_dir (env ?r) ''/work/run'' ''/out/failed.20090406_010000.y0012x0003'' ?fs
              = Inr [''/out'' \<mapsto> Map.empty,
                     ''/out/failed.20090406_010000.y0012x0003'' \<mapsto> ex_run_dir ++ map_of good_output]"
    by (simp add: shutil_move_dir_def ex_runner_simps ex_env_stale_simps ex_staged_def fun_upd_twist)
  from keep run l1 l2 l3 mv show ?thesis by (intro conjI)
qed

subsection \<open>One failed cell among four\<close>



lemma ex_pp_env_simps:
  "from_file (ex_pp_env w) = Inr ex_config"
  "decompose_by_rows (ex_pp_env w) cfg
     = [\<lparr>tile_id = 0, cells = [c00, c10]\<rparr>, \<lparr>tile_id = 1, cells = [c01, c11]\<rparr>]"
  "input_coordinates (ex_pp_env w) = Inr ex_templates"
  "to_netcdf_raises (ex_pp_env w) = w"
  by (simp_all add: ex_pp_env_def)



lemma pp_cell_readable:
  assumes "fs (pjoin (output_directory cfg) (ts @ ''.'' @ cell_id c)) = Some ex_cell_dir"
    and "x_global c < length (x_coord ct)" and "y_global c < length (y_coord ct)"
  shows "pp_cell c ts ct cfg fs
           = Inr (ex_cell_ds (x_coord ct ! x_global c) (y_coord ct ! y_global c),
                  pjoin (output_directory cfg) (ts @ ''.'' @ cell_id c))"
  using assms
  by (simp add: pp_cell_def Let_def open_dataset_def SCM_OUT_FILES_def ex_cell_dir_def ex_nc_def
      coord_at_def auto_combine_def ex_cell_ds_def ex_vars_def)

lemma pp_cell_all:
  "pp_cell c00 ''20090406_010000'' ex_templates ex_config ex_all_files
     = Inr (ex_cell_ds 10 50, ''/out/20090406_010000.y0000x0000'')"
  "pp_cell c10 ''20090406_010000'' ex_templates ex_config ex_all_files
     = Inr (ex_cell_ds 20 50, ''/out/20090406_010000.y0000x0001'')"
  "pp_cell c01 ''20090406_010000'' ex_templates ex_config ex_all_files
     = Inr (ex_cell_ds 10 40, ''/out/20090406_010000.y0001x0000'')"
  "pp_cell c11 ''20090406_010000'' ex_templates ex_config ex_all_files
     = Inr (ex_cell_ds 20 40, ''/out/20090406_010000.y0001x0001'')"
  by (simp_all add: pp_cell_readable cell_ids cell_xy pjoin_def ex_out ex_all_files_def
      ex_cell_files_def ex_templates_def)

lemma pp_tile_all:
  "pp_tile ex_config ''20090406_010000'' ex_templates ex_all_files \<lparr>tile_id = i, cells = [c00, c10]\<rparr>
     = Inr (\<lparr>time = [0, 900], x_values = [10, 20], y_values = [50], data = [[ex_vars, ex_vars]]\<rparr>,
            [''/out/20090406_010000.y0000x0000'', ''/out/20090406_010000.y0000x0001''])"
  "pp_tile ex_config ''20090406_010000'' ex_templates ex_all_files \<lparr>tile_id = i, cells = [c01, c11]\<rparr>
     = Inr (\<lparr>time = [0, 900], x_values = [10, 20], y_values = [40], data = [[ex_vars, ex_vars]]\<rparr>,
            [''/out/20090406_010000.y0001x0000'', ''/out/20090406_010000.y0001x0001''])"
  by (simp_all add: pp_tile_def pp_cell_all xr_concat_x_def cell_xy ex_cell_ds_def)


lemma ex_grid:
  "grid_dataset
     [\<lparr>time = [0, 900], x_values = [10, 20], y_values = [50], data = [[ex_vars, ex_vars]]\<rparr>,
      \<lparr>time = [0, 900], x_values = [10, 20], y_values = [40], data = [[ex_vars, ex_vars]]\<rparr>]
     = Inr \<lparr>time = [0, 900], x_values = [10, 20], y_values = [40, 50],
            data = [[ex_vars, ex_vars], [ex_vars, ex_vars]]\<rparr>"
  by (simp add: grid_dataset_def sorted_by_max_y_def values_max_def xr_concat_y_def)




subsection \<open>A failed write of the grid file\<close>

text \<open>
  C2 (the code departs from the claim). Writing the grid file raises \<^verbatim>\<open>RuntimeError\<close>
  and the deletion of the cells' files was asked for: the handler builds an \<open>Error\<close>
  without raising it, so \<open>post_process\<close> goes on, the four cell directories (which were
  there before) are deleted, no grid file is written, and \<open>main\<close> returns the exit
  status 0.
\<close>

theorem write_failure_not_fatal:
  "ex_all_files ''/out/20090406_010000.y0000x0000'' = Some ex_cell_dir
   \<and> ex_all_files ''/out/20090406_010000.y0001x0001'' = Some ex_cell_dir
   \<and> fst (main (ex_pp_env (Some RuntimeError)) 1 True (ex_pp_state ex_all_files)) = Inr 0
   \<and> written (snd (main (ex_pp_env (Some RuntimeError)) 1 True (ex_pp_state ex_all_files))) = []
   \<and> cell_files (snd (main (ex_pp_env (Some RuntimeError)) 1 True (ex_pp_state ex_all_files)))
        ''/out/20090406_010000.y0000x0000'' = None
   \<and> cell_files (snd (main (ex_pp_env (Some RuntimeError)) 1 True (ex_pp_state ex_all_files)))
        ''/out/20090406_010000.y0000x0001'' = None
   \<and> cell_files (snd (main (ex_pp_env (Some RuntimeError)) 1 True (ex_pp_state ex_all_files)))
        ''/out/20090406_010000.y0001x0000'' = None
   \<and> cell_files (snd (main (ex_pp_env (Some RuntimeError)) 1 True (ex_pp_state ex_all_files)))
        ''/out/20090406_010000.y0001x0001'' = None"
proof -
  let ?log = "[InfoRunning, InfoLoadingTemplates, InfoDispatching 1,
               InfoWriting ''/out/scm_out.20090406_010000.nc'', InfoDeleting]"
  have p: "post_process (ex_pp_env (Some RuntimeError)) 1 True
             \<lparr>cell_files = ex_all_files, written = [], pp_log = [InfoRunning]\<rparr>
           = delete_cell_dirs
               [''/out/20090406_010000.y0000x0000'', ''/out/20090406_010000.y0000x0001'',
                ''/out/20090406_010000.y0001x0000'', ''/out/20090406_010000.y0001x0001'']
               \<lparr>cell_files = ex_all_files, written = [], pp_log = ?log\<rparr>"
    by (simp add: post_process_def ex_pp_env_simps load_coordinate_templates_def
        date_id_ex_config pp_info_def pp_tile_all ex_grid write_grid_def Let_def pjoin_def ex_out
        del: delete_cell_dirs.simps)
  have d: "delete_cell_dirs
               [''/out/20090406_010000.y0000x0000'', ''/out/20090406_010000.y0000x0001'',
                ''/out/20090406_010000.y0001x0000'', ''/out/20090406_010000.y0001x0001'']
               \<lparr>cell_files = ex_all_files, written = [], pp_log = ?log\<rparr>
           = (Inr (),
              \<lparr>cell_files = Map.empty, written = [],
                 pp_log = ?log @ [InfoDeleted ''/out/20090406_010000.y0000x0000'',
                                  InfoDeleted ''/out/20090406_010000.y0000x0001'',
                                  InfoDeleted ''/out/20090406_010000.y0001x0000'',
                                  InfoDeleted ''/out/20090406_010000.y0001x0001'']\<rparr>)"
    by (simp add: rmtree_def pp_info_def ex_all_files_def ex_cell_files_def)
  have m: "main (ex_pp_env (Some RuntimeError)) 1 True (ex_pp_state ex_all_files)
             = (Inr 0,
                \<lparr>cell_files = Map.empty, written = [],
                   pp_log = ?log @ [InfoDeleted ''/out/20090406_010000.y0000x0000'',
                                    InfoDeleted ''/out/20090406_010000.y0000x0001'',
                                    InfoDeleted ''/out/20090406_010000.y0001x0000'',
                                    InfoDeleted ''/out/20090406_010000.y0001x0001'']\<rparr>)"
    by (simp add: main_def ex_pp_state_def pp_info_def p d del: delete_cell_dirs.simps)
  show ?thesis
    unfolding m by (simp add: ex_all_files_def ex_cell_files_def)
qed

end
